theory Spec2Isabelle
  imports Main "HOL-Library.Sublist"
begin

section \<open>Values of the Python runtime\<close>

text \<open>
  The handler of \<^verbatim>\<open>src/lambda_function.py\<close> works on what \<^verbatim>\<open>json.loads\<close> produces:
  \<^verbatim>\<open>None\<close>, booleans, numbers, strings, lists and dictionaries with string keys. A Python
  \<^verbatim>\<open>str\<close> is a HOL \<open>string\<close>, one \<open>char\<close> for each code point (so the model speaks of texts
  over the code points 0 to 255). A dictionary is an association list in insertion
  order. A float is kept as the numeral text that denotes it: the handler never computes
  with it.
\<close>

datatype pyval =
    PNone
  | PBool bool
  | PInt int
  | PFloat string
  | PStr string
  | PList "pyval list"
  | PDict "(string \<times> pyval) list"

subsection \<open>The email provider's interface\<close>

text \<open>
  The keyword arguments of \<^verbatim>\<open>ses_client.send_email\<close> (lines 72 to 95), with the nesting of
  the call. \<^verbatim>\<open>ReplyToAddresses\<close> holds the submitted \<^verbatim>\<open>email\<close> value as it is, whatever its
  type.
\<close>

record content =
  Charset :: string
  Data :: string

record message_body =
  Html :: content
  Text :: content

record message =
  Body :: message_body
  Subject :: content

record destination =
  ToAddresses :: "string list"

record ses_request =
  Destination :: destination
  Message :: message
  Source :: string
  ReplyToAddresses :: "pyval list"

text \<open>
  The provider's replies: a successful send returns a response holding the identifier
  read by \<^verbatim>\<open>response['MessageId']\<close>; a service-level failure raises
  \<^verbatim>\<open>botocore.exceptions.ClientError\<close>, whose \<^verbatim>\<open>e.response['Error']\<close> holds a code and the
  message read at line 98; anything else the client raises (a parameter validation
  error, a connection error) is an ordinary exception. The two fields the handler reads
  are there in every reply, as the provider's interface has them: the handler reads them
  by subscript at lines 98 and 126, where no \<^verbatim>\<open>except\<close> clause would catch a \<^verbatim>\<open>KeyError\<close>.
\<close>

record ses_response =
  MessageId :: string

record ses_error =
  ErrorCode :: string
  ErrorMessage :: string

datatype send_result =
    Sent ses_response
  | Rejected ses_error
  | Crashed

subsection \<open>Exceptions\<close>

text \<open>
  Every exception the body of the \<^verbatim>\<open>try\<close> statement can raise. All of them are subclasses
  of \<^verbatim>\<open>Exception\<close>; \<open>ClientError\<close> is the one the first \<^verbatim>\<open>except\<close> clause names.
  \<open>DecodeError\<close> is whatever \<^verbatim>\<open>json.loads\<close> raises on a string, \<open>SendError\<close> whatever the
  provider's client raises that is no \<open>ClientError\<close>.
\<close>

datatype exn =
    ClientError ses_error
  | TypeError
  | AttributeError
  | KeyError
  | DecodeError
  | SendError

subsection \<open>What the handler takes from outside the repository\<close>

text \<open>
  The library functions and the platform constant the handler uses, as parameters:
  \<^item> \<open>loads\<close> is \<^verbatim>\<open>json.loads\<close> on a \<^verbatim>\<open>str\<close>: \<open>None\<close> when it raises, \<open>Some v\<close> when it
    returns \<open>v\<close>;
  \<^item> \<open>str_of\<close> is \<^verbatim>\<open>str(v)\<close> for a value that is not a \<^verbatim>\<open>str\<close> (what an f-string puts
    in place of \<^verbatim>\<open>{v}\<close>), and \<open>str_exn\<close> is \<^verbatim>\<open>str(e)\<close> for an exception;
  \<^item> \<open>linesep\<close> is \<^verbatim>\<open>os.linesep\<close>;
  \<^item> \<open>send_email\<close> is the reply of \<^verbatim>\<open>ses_client.send_email\<close> to a request.
\<close>

record runtime =
  loads :: "string \<Rightarrow> pyval option"
  str_of :: "pyval \<Rightarrow> string"
  str_exn :: "exn \<Rightarrow> string"
  linesep :: string
  send_email :: "ses_request \<Rightarrow> send_result"

text \<open>
  What an invocation leaves behind: the lines printed (the function's log) and the
  requests handed to the provider, both oldest first.
\<close>

record world =
  stdout :: "string list"
  sent :: "ses_request list"

definition print :: "string \<Rightarrow> world \<Rightarrow> world" where
  "print line w = w\<lparr>stdout := stdout w @ [line]\<rparr>"

section \<open>Library operations the handler calls\<close>

text \<open>\<^verbatim>\<open>d.get(key, default)\<close> on a dictionary.\<close>

definition dict_get :: "(string \<times> pyval) list \<Rightarrow> string \<Rightarrow> pyval \<Rightarrow> pyval" where
  "dict_get d k dflt = (case map_of d k of None \<Rightarrow> dflt | Some v \<Rightarrow> v)"

text \<open>\<^verbatim>\<open>d[key]\<close> on a dictionary: \<^verbatim>\<open>KeyError\<close> when the key is missing.\<close>

definition dict_subscript :: "(string \<times> pyval) list \<Rightarrow> string \<Rightarrow> exn + pyval" where
  "dict_subscript d k =
     (case map_of d k of None \<Rightarrow> Inl KeyError | Some v \<Rightarrow> Inr v)"

text \<open>
  \<^verbatim>\<open>json.loads(v)\<close>: a \<^verbatim>\<open>TypeError\<close> for a value that is no string (the event's values are
  JSON values, so never \<^verbatim>\<open>bytes\<close>), the decoder's verdict otherwise.
\<close>

definition py_json_loads :: "runtime \<Rightarrow> pyval \<Rightarrow> exn + pyval" where
  "py_json_loads rt v =
     (case v of
        PStr s \<Rightarrow> (case loads rt s of None \<Rightarrow> Inl DecodeError | Some x \<Rightarrow> Inr x)
      | _ \<Rightarrow> Inl TypeError)"

text \<open>\<^verbatim>\<open>v.get(key, default)\<close>: only a dictionary has the method.\<close>

definition py_get :: "pyval \<Rightarrow> string \<Rightarrow> pyval \<Rightarrow> exn + pyval" where
  "py_get v k dflt = (case v of PDict d \<Rightarrow> Inr (dict_get d k dflt) | _ \<Rightarrow> Inl AttributeError)"

text \<open>
  \<^verbatim>\<open>s.replace(old, new)\<close> on a \<^verbatim>\<open>str\<close>: every occurrence of \<open>old\<close>, found from the left and
  not overlapping an earlier one, becomes \<open>new\<close>. (For an empty \<open>old\<close> Python puts \<open>new\<close>
  before every character and at the end.)
\<close>

function replace :: "string \<Rightarrow> string \<Rightarrow> string \<Rightarrow> string" where
  "replace [] old new = (if old = [] then new else [])"
| "replace (c # cs) old new =
     (if old = [] then new @ c # replace cs old new
      else if prefix old (c # cs) then new @ replace (drop (length old) (c # cs)) old new
      else c # replace cs old new)"
  by pat_completeness auto
termination
  by (relation "measure (\<lambda>(s, old, new). length s)") auto

text \<open>\<^verbatim>\<open>v.replace(old, new)\<close>: only a \<^verbatim>\<open>str\<close> has the method.\<close>

definition py_replace :: "pyval \<Rightarrow> string \<Rightarrow> string \<Rightarrow> exn + string" where
  "py_replace v old new =
     (case v of PStr s \<Rightarrow> Inr (replace s old new) | _ \<Rightarrow> Inl AttributeError)"

text \<open>What an f-string puts in place of \<^verbatim>\<open>{v}\<close>: a \<^verbatim>\<open>str\<close> as it is, \<^verbatim>\<open>str(v)\<close> otherwise.\<close>

definition format_value :: "runtime \<Rightarrow> pyval \<Rightarrow> string" where
  "format_value rt v = (case v of PStr s \<Rightarrow> s | _ \<Rightarrow> str_of rt v)"

subsection \<open>\<^verbatim>\<open>json.dumps\<close> on a flat dictionary of strings\<close>

text \<open>
  The handler serialises dictionaries whose keys and values are strings, with the
  defaults of \<^verbatim>\<open>json.dumps\<close>: \<^verbatim>\<open>ensure_ascii\<close>, and the separators \<^verbatim>\<open>', '\<close> and \<^verbatim>\<open>': '\<close>.
  A character is written as it is when it is printable ASCII other than the quote and the
  backslash, with its short escape when it has one, as \<^verbatim>\<open>\u00xx\<close> otherwise.
\<close>

definition hex_digit :: "nat \<Rightarrow> char" where
  "hex_digit n = ''0123456789abcdef'' ! (n mod 16)"

definition escape_char :: "char \<Rightarrow> string" where
  "escape_char c =
     (if c = CHR 0x22 then [CHR 0x5C, CHR 0x22]
      else if c = CHR 0x5C then [CHR 0x5C, CHR 0x5C]
      else if c = CHR 0x0A then [CHR 0x5C, CHR ''n'']
      else if c = CHR 0x0D then [CHR 0x5C, CHR ''r'']
      else if c = CHR 0x09 then [CHR 0x5C, CHR ''t'']
      else if c = CHR 0x08 then [CHR 0x5C, CHR ''b'']
      else if c = CHR 0x0C then [CHR 0x5C, CHR ''f'']
      else if 32 \<le> (of_char c :: nat) \<and> (of_char c :: nat) \<le> 126 then [c]
      else [CHR 0x5C, CHR ''u'', CHR ''0'', CHR ''0'',
            hex_digit (of_char c div 16), hex_digit (of_char c)])"

definition encode_str :: "string \<Rightarrow> string" where
  "encode_str s = [CHR 0x22] @ concat (map escape_char s) @ [CHR 0x22]"

fun join :: "string \<Rightarrow> string list \<Rightarrow> string" where
  "join sep [] = []"
| "join sep [x] = x"
| "join sep (x # y # ys) = x @ sep @ join sep (y # ys)"

definition json_dumps :: "(string \<times> string) list \<Rightarrow> string" where
  "json_dumps d =
     ''{'' @ join '', '' (map (\<lambda>(k, v). encode_str k @ '': '' @ encode_str v) d) @ ''}''"

section \<open>The handler\<close>

text \<open>The module's constants (lines 12 and 15).\<close>

definition SENDER_EMAIL :: string where
  "SENDER_EMAIL = ''no-reply@yourdomain.com''"

definition RECIPIENT_EMAIL :: string where
  "RECIPIENT_EMAIL = ''your-inbox@yourdomain.com''"

text \<open>A response: the dictionary the handler returns; \<open>headers = None\<close> when it has no
  \<^verbatim>\<open>'headers'\<close> key.\<close>

record response =
  statusCode :: int
  headers :: "(string \<times> string) list option"
  body :: string

definition cors_headers :: "(string \<times> string) list" where
  "cors_headers = [(''Access-Control-Allow-Origin'', ''*''), (''Content-Type'', ''application/json'')]"

text \<open>The two f-strings (lines 45 to 59 and 62 to 69), with the indentation of the source.\<close>

definition HTML_BODY :: "string \<Rightarrow> string \<Rightarrow> string \<Rightarrow> string \<Rightarrow> string" where
  "HTML_BODY name email subject message_br =
     ''\<newline>        <html>\<newline>        <head></head>\<newline>        <body>\<newline>''
     @ ''            <p>You have received a new contact form submission:</p>\<newline>''
     @ ''            <ul>\<newline>''
     @ ''                <li><strong>Name:</strong> '' @ name @ ''</li>\<newline>''
     @ ''                <li><strong>Email:</strong> '' @ email @ ''</li>\<newline>''
     @ ''            </ul>\<newline>''
     @ ''            <p><strong>Subject:</strong> '' @ subject @ ''</p>\<newline>''
     @ ''            <h3>Message:</h3>\<newline>''
     @ ''            <p>'' @ message_br @ ''</p>\<newline>''
     @ ''        </body>\<newline>        </html>\<newline>        ''"

definition TEXT_BODY :: "string \<Rightarrow> string \<Rightarrow> string \<Rightarrow> string \<Rightarrow> string" where
  "TEXT_BODY name email subject message =
     ''\<newline>        New Contact Form Submission:\<newline>''
     @ ''        Name: '' @ name @ ''\<newline>''
     @ ''        Email: '' @ email @ ''\<newline>''
     @ ''        Subject: '' @ subject @ ''\<newline>''
     @ ''        Message:\<newline>''
     @ ''        '' @ message @ ''\<newline>        ''"

text \<open>The request of lines 72 to 95, from the four extracted values.\<close>

definition ses_params :: "runtime \<Rightarrow> pyval \<Rightarrow> pyval \<Rightarrow> pyval \<Rightarrow> string \<Rightarrow> string \<Rightarrow> ses_request" where
  "ses_params rt name email subject message message_br =
     \<lparr>Destination = \<lparr>ToAddresses = [RECIPIENT_EMAIL]\<rparr>,
      Message =
        \<lparr>Body =
           \<lparr>Html = \<lparr>Charset = ''UTF-8'',
                    Data = HTML_BODY (format_value rt name) (format_value rt email)
                             (format_value rt subject) message_br\<rparr>,
            Text = \<lparr>Charset = ''UTF-8'',
                    Data = TEXT_BODY (format_value rt name) (format_value rt email)
                             (format_value rt subject) message\<rparr>\<rparr>,
         Subject = \<lparr>Charset = ''UTF-8'', Data = ''New Contact: '' @ format_value rt subject\<rparr>\<rparr>,
      Source = SENDER_EMAIL,
      ReplyToAddresses = [email]\<rparr>"

text \<open>
  How the body of the \<^verbatim>\<open>try\<close> statement (lines 26 to 95) ends: with the \<^verbatim>\<open>return\<close> of line
  29, with an exception, or at its last line with \<^verbatim>\<open>response\<close> bound.
\<close>

datatype outcome =
    Returned response
  | Raised exn
  | Completed ses_response

definition try_block :: "runtime \<Rightarrow> (string \<times> pyval) list \<Rightarrow> world \<Rightarrow> outcome \<times> world" where
  "try_block rt event w =
     (if dict_get event ''body'' PNone = PNone then
        (Returned \<lparr>statusCode = 400, headers = None,
                   body = json_dumps [(''error'', ''No form data submitted.'')]\<rparr>,
         print ''No body found in the event.'' w)
      else
        (case dict_subscript event ''body'' of Inl e \<Rightarrow> (Raised e, w) | Inr raw \<Rightarrow>
        (case py_json_loads rt raw of Inl e \<Rightarrow> (Raised e, w) | Inr form_data \<Rightarrow>
        (case py_get form_data ''name'' (PStr ''N/A'') of Inl e \<Rightarrow> (Raised e, w) | Inr name \<Rightarrow>
        (case py_get form_data ''email'' (PStr ''N/A'') of Inl e \<Rightarrow> (Raised e, w) | Inr email \<Rightarrow>
        (case py_get form_data ''subject'' (PStr ''N/A'') of Inl e \<Rightarrow> (Raised e, w) | Inr subject \<Rightarrow>
        (case py_get form_data ''message'' (PStr ''N/A'') of Inl e \<Rightarrow> (Raised e, w) | Inr message \<Rightarrow>
        (case py_replace message (linesep rt) ''<br>'' of Inl e \<Rightarrow> (Raised e, w) | Inr message_br \<Rightarrow>
          (let request = ses_params rt name email subject (format_value rt message) message_br;
               w' = w\<lparr>sent := sent w @ [request]\<rparr>
           in (case send_email rt request of
                 Sent r \<Rightarrow> (Completed r, w')
               | Rejected err \<Rightarrow> (Raised (ClientError err), w')
               | Crashed \<Rightarrow> (Raised SendError, w')))))))))))"

text \<open>
  \<^verbatim>\<open>lambda_handler(event, context)\<close>: the \<^verbatim>\<open>try\<close> statement with its two \<^verbatim>\<open>except\<close> clauses
  (lines 97 to 117), then the \<^verbatim>\<open>return\<close> of lines 120 to 127. \<^verbatim>\<open>context\<close> is never read.
\<close>

definition lambda_handler :: "runtime \<Rightarrow> (string \<times> pyval) list \<Rightarrow> world \<Rightarrow> response \<times> world" where
  "lambda_handler rt event w =
     (case try_block rt event w of
        (Returned r, w') \<Rightarrow> (r, w')
      | (Raised (ClientError e), w') \<Rightarrow>
          (\<lparr>statusCode = 500, headers = Some cors_headers,
            body = json_dumps [(''error'', ''Failed to send email. Check Lambda logs.'')]\<rparr>,
           print (''SES Send Email Error: '' @ ErrorMessage e) w')
      | (Raised e, w') \<Rightarrow>
          (\<lparr>statusCode = 500, headers = Some cors_headers,
            body = json_dumps [(''error'', ''Internal server error.'')]\<rparr>,
           print (''General Lambda Error: '' @ str_exn rt e) w')
      | (Completed r, w') \<Rightarrow>
          (\<lparr>statusCode = 200, headers = Some cors_headers,
            body = json_dumps [(''message'', ''Email sent successfully!''),
                               (''message_id'', MessageId r)]\<rparr>,
           w'))"

section \<open>A decoder for JSON texts\<close>

text \<open>
  The decoder of Python's \<^verbatim>\<open>json\<close> module, for the concrete scenarios: the theorems about
  the handler hold for every decoder, the scenarios run this one.
\<close>

text \<open>The white space the decoder skips between tokens: space, tab, line feed, carriage return.\<close>

definition is_ws :: "char \<Rightarrow> bool" where
  "is_ws c = (c = CHR '' '' \<or> c = CHR 0x09 \<or> c = CHR 0x0A \<or> c = CHR 0x0D)"

definition skip_ws :: "string \<Rightarrow> string" where
  "skip_ws s = dropWhile is_ws s"

definition is_digit :: "char \<Rightarrow> bool" where
  "is_digit c = (48 \<le> (of_char c :: nat) \<and> (of_char c :: nat) \<le> 57)"

definition digit_val :: "char \<Rightarrow> nat" where
  "digit_val c = of_char c - 48"

text \<open>The value of a hexadecimal digit, and of the four digits of a \<^verbatim>\<open>\uXXXX\<close> escape.\<close>

definition hex_val :: "char \<Rightarrow> nat option" where
  "hex_val c =
     (let n = (of_char c :: nat) in
      if 48 \<le> n \<and> n \<le> 57 then Some (n - 48)
      else if 65 \<le> n \<and> n \<le> 70 then Some (n - 55)
      else if 97 \<le> n \<and> n \<le> 102 then Some (n - 87)
      else None)"

definition decode_uXXXX :: "char \<Rightarrow> char \<Rightarrow> char \<Rightarrow> char \<Rightarrow> nat option" where
  "decode_uXXXX a b c d =
     (case (hex_val a, hex_val b, hex_val c, hex_val d) of
        (Some h3, Some h2, Some h1, Some h0) \<Rightarrow> Some (((h3 * 16 + h2) * 16 + h1) * 16 + h0)
      | _ \<Rightarrow> None)"

text \<open>The one-character escapes of a JSON string.\<close>

definition BACKSLASH :: "char \<Rightarrow> char option" where
  "BACKSLASH e =
     (if e = CHR 0x22 then Some (CHR 0x22)
      else if e = CHR 0x5C then Some (CHR 0x5C)
      else if e = CHR ''/'' then Some (CHR ''/'')
      else if e = CHR ''b'' then Some (CHR 0x08)
      else if e = CHR ''f'' then Some (CHR 0x0C)
      else if e = CHR ''n'' then Some (CHR 0x0A)
      else if e = CHR ''r'' then Some (CHR 0x0D)
      else if e = CHR ''t'' then Some (CHR 0x09)
      else None)"

text \<open>
  \<open>scanstring s\<close> reads a string whose opening quote has been consumed: the text up to the
  closing quote, with the escapes replaced, and what follows the quote. No value for a
  string that never closes, for a control character written as it is, and for an unknown
  escape. An escape above \<^verbatim>\<open>\u00ff\<close> denotes a code point the strings of this model do not
  have: the model gives no value for such a text either.
\<close>

definition scanned :: "char \<Rightarrow> (string \<times> string) option \<Rightarrow> (string \<times> string) option" where
  "scanned c r = (case r of None \<Rightarrow> None | Some (t, rest) \<Rightarrow> Some (c # t, rest))"

fun scanstring :: "string \<Rightarrow> (string \<times> string) option" where
  "scanstring [] = None"
| "scanstring (c # cs) =
     (if c = CHR 0x22 then Some ([], cs)
      else if c = CHR 0x5C then
        (case cs of
           [] \<Rightarrow> None
         | e # r \<Rightarrow>
             if e = CHR ''u'' then
               (case r of
                  h3 # h2 # h1 # h0 # r' \<Rightarrow>
                    (case decode_uXXXX h3 h2 h1 h0 of
                       None \<Rightarrow> None
                     | Some n \<Rightarrow> if n < 256 then scanned (char_of n) (scanstring r') else None)
                | _ \<Rightarrow> None)
             else (case BACKSLASH e of None \<Rightarrow> None | Some ch \<Rightarrow> scanned ch (scanstring r)))
      else if (of_char c :: nat) < 32 then None
      else scanned c (scanstring cs))"

text \<open>
  Numbers, as the decoder's pattern \<^verbatim>\<open>(-?(?:0|[1-9]\d*))(\.\d+)?([eE][-+]?\d+)?\<close> reads them: an
  integer part, then a fraction and an exponent when they are complete. A number with a
  fraction or an exponent is a float, any other an \<^verbatim>\<open>int\<close>.
\<close>

definition digits_val :: "string \<Rightarrow> int" where
  "digits_val ds = foldl (\<lambda>n d. 10 * n + int (digit_val d)) 0 ds"

definition match_integer :: "string \<Rightarrow> (string \<times> string) option" where
  "match_integer s =
     (let (sign, r) = (case s of c # r \<Rightarrow> if c = CHR ''-'' then (''-'', r) else ([], s) | [] \<Rightarrow> ([], s))
      in case r of
           [] \<Rightarrow> None
         | d # r' \<Rightarrow>
             if d = CHR ''0'' then Some (sign @ [d], r')
             else if is_digit d then Some (sign @ d # takeWhile is_digit r', dropWhile is_digit r')
             else None)"

definition match_frac :: "string \<Rightarrow> string \<times> string" where
  "match_frac s =
     (case s of
        c # d # r \<Rightarrow>
          if c = CHR ''.'' \<and> is_digit d then (c # d # takeWhile is_digit r, dropWhile is_digit r)
          else ([], s)
      | _ \<Rightarrow> ([], s))"

definition match_exp :: "string \<Rightarrow> string \<times> string" where
  "match_exp s =
     (case s of
        e # r \<Rightarrow>
          if e = CHR ''e'' \<or> e = CHR ''E'' then
            (let (sign, r') = (case r of c # t \<Rightarrow> if c = CHR ''-'' \<or> c = CHR ''+'' then ([c], t) else ([], r) | [] \<Rightarrow> ([], r))
             in case r' of
                  d # t \<Rightarrow> if is_digit d then (e # sign @ d # takeWhile is_digit t, dropWhile is_digit t) else ([], s)
                | [] \<Rightarrow> ([], s))
          else ([], s)
      | [] \<Rightarrow> ([], s))"

definition match_number :: "string \<Rightarrow> (pyval \<times> string) option" where
  "match_number s =
     (case match_integer s of
        None \<Rightarrow> None
      | Some (integer, r) \<Rightarrow>
          (let (frac, r1) = match_frac r; (exp, r2) = match_exp r1
           in if frac \<noteq> [] \<or> exp \<noteq> [] then Some (PFloat (integer @ frac @ exp), r2)
              else Some (PInt (case integer of
                                 c # ds \<Rightarrow> if c = CHR ''-'' then - digits_val ds else digits_val integer
                               | [] \<Rightarrow> 0), r2)))"

text \<open>\<^verbatim>\<open>d[key] = value\<close>: a key that is present keeps its place, a new one goes last.\<close>

fun dict_set :: "string \<Rightarrow> pyval \<Rightarrow> (string \<times> pyval) list \<Rightarrow> (string \<times> pyval) list" where
  "dict_set k v [] = [(k, v)]"
| "dict_set k v (p # ps) = (if fst p = k then (k, v) # ps else p # dict_set k v ps)"

text \<open>
  The recursive descent over values, arrays and objects. \<open>JSONArray\<close> starts at the first
  element of an array that is not empty, \<open>JSONObject\<close> after the opening quote of a key.
  The first argument bounds the number of nested calls; \<open>json_loads\<close> starts with a bound no
  text exhausts (\<open>json_loads_never_Exhausted\<close> below). The interpreter's own limits (the
  recursion depth, the length of an integer literal) are not modelled.
\<close>

datatype scan = Scanned pyval string | Invalid | Exhausted

definition match_literal :: "string \<Rightarrow> pyval \<Rightarrow> string \<Rightarrow> scan \<Rightarrow> scan" where
  "match_literal lit v s otherwise = (if prefix lit s then Scanned v (drop (length lit) s) else otherwise)"

fun scan_once :: "nat \<Rightarrow> string \<Rightarrow> scan"
and JSONArray :: "nat \<Rightarrow> string \<Rightarrow> pyval list \<Rightarrow> scan"
and JSONObject :: "nat \<Rightarrow> string \<Rightarrow> (string \<times> pyval) list \<Rightarrow> scan" where
  "scan_once 0 s = Exhausted"
| "scan_once (Suc n) s =
     (case s of
        [] \<Rightarrow> Invalid
      | c # r \<Rightarrow>
          if c = CHR 0x22 then
            (case scanstring r of None \<Rightarrow> Invalid | Some (t, r') \<Rightarrow> Scanned (PStr t) r')
          else if c = CHR ''{'' then
            (case skip_ws r of
               [] \<Rightarrow> Invalid
             | c' # r' \<Rightarrow>
                 if c' = CHR ''}'' then Scanned (PDict []) r'
                 else if c' = CHR 0x22 then JSONObject n r' []
                 else Invalid)
          else if c = CHR ''['' then
            (case skip_ws r of
               [] \<Rightarrow> Invalid
             | c' # r' \<Rightarrow>
                 if c' = CHR '']'' then Scanned (PList []) r'
                 else JSONArray n (c' # r') [])
          else
            match_literal ''null'' PNone s
            (match_literal ''true'' (PBool True) s
            (match_literal ''false'' (PBool False) s
            (case match_number s of
               Some (v, r') \<Rightarrow> Scanned v r'
             | None \<Rightarrow>
                 match_literal ''NaN'' (PFloat ''NaN'') s
                 (match_literal ''Infinity'' (PFloat ''Infinity'') s
                 (match_literal ''-Infinity'' (PFloat ''-Infinity'') s Invalid))))))"
| "JSONArray 0 s acc = Exhausted"
| "JSONArray (Suc n) s acc =
     (case scan_once n s of
        Scanned v r \<Rightarrow>
          (case skip_ws r of
             [] \<Rightarrow> Invalid
           | c # r' \<Rightarrow>
               if c = CHR '']'' then Scanned (PList (acc @ [v])) r'
               else if c = CHR '','' then JSONArray n (skip_ws r') (acc @ [v])
               else Invalid)
      | Invalid \<Rightarrow> Invalid
      | Exhausted \<Rightarrow> Exhausted)"
| "JSONObject 0 s acc = Exhausted"
| "JSONObject (Suc n) s acc =
     (case scanstring s of
        None \<Rightarrow> Invalid
      | Some (key, r) \<Rightarrow>
          (case skip_ws r of
             [] \<Rightarrow> Invalid
           | c # r1 \<Rightarrow>
               if c = CHR '':'' then
                 (case scan_once n (skip_ws r1) of
                    Scanned v r2 \<Rightarrow>
                      (case skip_ws r2 of
                         [] \<Rightarrow> Invalid
                       | c2 # r3 \<Rightarrow>
                           if c2 = CHR ''}'' then Scanned (PDict (dict_set key v acc)) r3
                           else if c2 = CHR '','' then
                             (case skip_ws r3 of
                                [] \<Rightarrow> Invalid
                              | c3 # r4 \<Rightarrow>
                                  if c3 = CHR 0x22 then JSONObject n r4 (dict_set key v acc)
                                  else Invalid)
                           else Invalid)
                  | Invalid \<Rightarrow> Invalid
                  | Exhausted \<Rightarrow> Exhausted)
               else Invalid))"

text \<open>
  \<^verbatim>\<open>json.loads(s)\<close> for a string \<open>s\<close>: one value, with white space around it and nothing else.
  \<open>None\<close> stands for the exception the decoder raises.
\<close>

definition json_loads :: "string \<Rightarrow> pyval option" where
  "json_loads s =
     (case scan_once (2 * length s + 1) (skip_ws s) of
        Scanned v r \<Rightarrow> if skip_ws r = [] then Some v else None
      | _ \<Rightarrow> None)"

subsection \<open>The runtime of the concrete scenarios\<close>

text \<open>
  The scenarios below run the handler on Linux (the line separator is a line feed), with
  the decoder above and a provider that gives the same reply to every request. What they
  state does not depend on \<^verbatim>\<open>str\<close> of a value that is no string, nor on the text of an
  exception (which only the log shows): both are fixed to the empty text.
\<close>

definition lambda_runtime :: "send_result \<Rightarrow> runtime" where
  "lambda_runtime reply =
     \<lparr>loads = json_loads, str_of = (\<lambda>v. []), str_exn = (\<lambda>e. []), linesep = ''\<newline>'',
      send_email = (\<lambda>request. reply)\<rparr>"

text \<open>Nothing printed, nothing sent.\<close>

definition idle :: world where
  "idle = \<lparr>stdout = [], sent = []\<rparr>"

text \<open>The body of the specification's example submission.\<close>

definition alice_body :: string where
  \<open>alice_body = ''{"name":"Alice","email":"alice@example.com","subject":"Hi","message":"Hello''
     @ [CHR 0x5C] @ ''nWorld"}''\<close>

text \<open>A submission whose four values hold characters that are special in HTML.\<close>

definition markup_body :: string where
  \<open>markup_body = ''{"name":"<b>Al</b>","email":"a&b@example.com","subject":"1 < 2","message":"one''
     @ [CHR 0x5C] @ ''ntwo <script>"}''\<close>

section \<open>Properties of the library operations\<close>

subsection \<open>\<^verbatim>\<open>str.replace\<close>\<close>

lemma replace_absent:
  "\<not> sublist old s \<Longrightarrow> replace s old new = s"
proof (induction s old new rule: replace.induct)
  case (1 old new)
  then show ?case by auto
next
  case (2 c cs old new)
  from "2.prems" have ne: "old \<noteq> []" by auto
  from "2.prems" have np: "\<not> prefix old (c # cs)"
    using prefix_imp_sublist by blast
  from "2.prems" have "\<not> sublist old cs"
    by (meson sublist_Cons_right)
  with 2 ne np show ?case by simp
qed

lemma prefix_in_front:
  assumes "prefix old ((x # a) @ old @ b)"
  shows "sublist old ((x # a) @ butlast old)"
proof (cases "old = []")
  case True
  then show ?thesis by simp
next
  case False
  have len: "length old \<le> length ((x # a) @ butlast old)" by simp
  from assms have "old = take (length old) ((x # a) @ old @ b)"
    by (metis append_eq_conv_conj prefix_def)
  also have "\<dots> = take (length old) ((x # a) @ butlast old)"
    using False by (cases old rule: rev_cases) (auto simp: butlast_append)
  finally have "prefix old ((x # a) @ butlast old)"
    by (metis take_is_prefix)
  then show ?thesis by (rule prefix_imp_sublist)
qed

lemma replace_first:
  "\<not> sublist old (a @ butlast old) \<Longrightarrow> replace (a @ old @ b) old new = a @ new @ replace b old new"
proof (induction a)
  case Nil
  then have ne: "old \<noteq> []" by auto
  then obtain c cs where old: "old = c # cs" by (cases old) auto
  show ?case by (simp add: old)
next
  case (Cons x a)
  then have ne: "old \<noteq> []" by auto
  have np: "\<not> prefix old ((x # a) @ old @ b)"
  proof
    assume "prefix old ((x # a) @ old @ b)"
    then have "sublist old ((x # a) @ butlast old)" by (rule prefix_in_front)
    with Cons.prems show False by simp
  qed
  from Cons.prems have "\<not> sublist old (a @ butlast old)"
    by (metis append_Cons sublist_Cons_right)
  with Cons.IH ne np show ?case by simp
qed

lemma replace_char:
  "replace s [c] new = concat (map (\<lambda>x. if x = c then new else [x]) s)"
  by (induction s) auto

lemma replace_removes_newline:
  "CHR 0x0A \<notin> set (replace s [CHR 0x0A] ''<br>'')"
  by (induction s) auto

subsection \<open>\<^verbatim>\<open>json.dumps\<close> and the decoder\<close>

lemma hex_val_digits:
  "\<forall>j \<in> set [0..<16]. hex_val (''0123456789abcdef'' ! j) = Some j"
  by code_simp

lemma hex_val_hex_digit: "hex_val (hex_digit k) = Some (k mod 16)"
  using hex_val_digits by (simp add: hex_digit_def)

lemma decode_escape:
  "decode_uXXXX CHR ''0'' CHR ''0'' (hex_digit (of_char c div 16)) (hex_digit (of_char c))
     = Some (of_char c)"
proof -
  have "(of_char c :: nat) < 16 * 16" by simp
  then have "(of_char c :: nat) div 16 < 16" by (rule less_mult_imp_div_less)
  then have "(of_char c :: nat) div 16 mod 16 = of_char c div 16" by simp
  moreover have "hex_val CHR ''0'' = Some 0" by (simp add: hex_val_def)
  ultimately show ?thesis
    by (simp add: decode_uXXXX_def hex_val_hex_digit)
qed

lemma scanstring_escape_char:
  "scanstring (escape_char c @ rest) = scanned c (scanstring rest)"
proof -
  have lt: "(of_char c :: nat) < 256" by simp
  consider "c = CHR 0x22" | "c = CHR 0x5C" | "c = CHR 0x0A" | "c = CHR 0x0D" | "c = CHR 0x09"
    | "c = CHR 0x08" | "c = CHR 0x0C"
    | "c \<notin> {CHR 0x22, CHR 0x5C, CHR 0x0A, CHR 0x0D, CHR 0x09, CHR 0x08, CHR 0x0C}"
      "32 \<le> (of_char c :: nat) \<and> (of_char c :: nat) \<le> 126"
    | "c \<notin> {CHR 0x22, CHR 0x5C, CHR 0x0A, CHR 0x0D, CHR 0x09, CHR 0x08, CHR 0x0C}"
      "\<not> (32 \<le> (of_char c :: nat) \<and> (of_char c :: nat) \<le> 126)"
    by blast
  then show ?thesis
  proof cases
    case 8
    then show ?thesis by (auto simp: escape_char_def)
  next
    case 9
    then show ?thesis
      using lt by (simp add: escape_char_def decode_escape)
  qed (simp_all add: escape_char_def BACKSLASH_def)
qed

lemma scanstring_encoded:
  "scanstring (concat (map escape_char s) @ CHR 0x22 # rest) = Some (s, rest)"
  by (induction s) (simp_all add: scanstring_escape_char scanned_def)

lemma scanstring_encode_str:
  "scanstring (tl (encode_str s) @ rest) = Some (s, rest)"
  using scanstring_encoded [of s rest] by (simp add: encode_str_def)

lemma skip_ws_quote [simp]: "skip_ws (CHR 0x22 # s) = CHR 0x22 # s"
  and skip_ws_nil [simp]: "skip_ws [] = []"
  by (simp_all add: skip_ws_def is_ws_def)


subsection \<open>The decoder never runs out of fuel\<close>

lemma scanned_shorter:
  "scanned c x = Some (t, r) \<Longrightarrow> \<exists>t'. x = Some (t', r)"
  by (auto simp: scanned_def split: option.splits)

lemma scanstring_shorter:
  "scanstring s = Some (t, r) \<Longrightarrow> length r < length s"
proof (induction s arbitrary: t rule: scanstring.induct)
  case 1
  then show ?case by simp
next
  case (2 c cs)
  show ?case
    using "2.prems" "2.IH"
    by (fastforce split: if_splits list.splits option.splits dest!: scanned_shorter)
qed

lemma skip_ws_le: "length (skip_ws s) \<le> length s"
  by (simp add: skip_ws_def length_dropWhile_le)

lemma skip_ws_Cons: "skip_ws s = c # r \<Longrightarrow> length r < length s"
  using skip_ws_le [of s] by simp

lemma match_integer_shorter:
  "match_integer s = Some (t, r) \<Longrightarrow> length r < length s"
  by (auto simp: match_integer_def less_Suc_eq_le length_dropWhile_le le_SucI
           split: list.splits if_splits)

lemma match_frac_le: "match_frac s = (t, r) \<Longrightarrow> length r \<le> length s"
  by (auto simp: match_frac_def length_dropWhile_le le_SucI split: list.splits if_splits)

lemma match_exp_le: "match_exp s = (t, r) \<Longrightarrow> length r \<le> length s"
  by (auto simp: match_exp_def length_dropWhile_le le_SucI split: list.splits if_splits)

lemma match_number_shorter:
  assumes "match_number s = Some (v, r)"
  shows "length r < length s"
proof -
  from assms obtain i r0 where i: "match_integer s = Some (i, r0)"
    by (auto simp: match_number_def split: option.splits)
  obtain f r1 where f: "match_frac r0 = (f, r1)" by (cases "match_frac r0")
  obtain e r2 where e: "match_exp r1 = (e, r2)" by (cases "match_exp r1")
  from assms i f e have "r = r2"
    by (auto simp: match_number_def split: if_splits)
  with match_integer_shorter [OF i] match_frac_le [OF f] match_exp_le [OF e]
  show ?thesis by simp
qed

lemma match_literal_shorter:
  assumes "match_literal lit v s other = Scanned v' r" "lit \<noteq> []" "s \<noteq> []"
    and "other = Scanned v' r \<Longrightarrow> length r < length s"
  shows "length r < length s"
  using assms by (auto simp: match_literal_def split: if_splits)


lemma scan_shorter:
  "scan_once n s = Scanned v r \<Longrightarrow> length r < length s"
  "JSONArray n s acc = Scanned v r \<Longrightarrow> length r < length s"
  "JSONObject n s kvs = Scanned v r \<Longrightarrow> length r < length s"
proof (induction n s and n s acc and n s kvs arbitrary: v r and v r and v r
       rule: scan_once_JSONArray_JSONObject.induct)
  case (1 s)
  then show ?case by simp
next
  case (2 n s)
  show ?case
  proof (cases s)
    case Nil
    with "2.prems" show ?thesis by simp
  next
    case (Cons c cs)
    consider (str) "c = CHR 0x22" | (obj) "c = CHR ''{''" | (arr) "c = CHR ''[''"
      | (other) "c \<noteq> CHR 0x22" "c \<noteq> CHR ''{''" "c \<noteq> CHR ''[''"
      by blast
    then show ?thesis
    proof cases
      case str
      with "2.prems" Cons show ?thesis
        by (auto split: option.splits dest: scanstring_shorter)
    next
      case obj
      from "2.prems" Cons obj obtain c' r' where c': "skip_ws cs = c' # r'"
        by (auto split: list.splits)
      from skip_ws_Cons [OF c'] Cons have l: "length r' < length s" by simp
      show ?thesis
      proof (cases "c' = CHR ''}''")
        case True
        with "2.prems" Cons obj c' l show ?thesis by simp
      next
        case False
        with "2.prems" Cons obj c' have q: "c' = CHR 0x22"
          and rest: "JSONObject n r' [] = Scanned v r"
          by (auto split: if_splits)
        have ns: "c \<noteq> CHR 0x22" using obj by simp
        from "2.IH"(1) [OF Cons ns obj c' False q rest] l show ?thesis by simp
      qed
    next
      case arr
      from "2.prems" Cons arr obtain c' r' where c': "skip_ws cs = c' # r'"
        by (auto split: list.splits)
      from skip_ws_Cons [OF c'] Cons have l: "length r' < length s" by simp
      show ?thesis
      proof (cases "c' = CHR '']''")
        case True
        with "2.prems" Cons arr c' l show ?thesis by simp
      next
        case False
        with "2.prems" Cons arr c' have rest: "JSONArray n (c' # r') [] = Scanned v r"
          by simp
        have ns: "c \<noteq> CHR 0x22" "c \<noteq> CHR ''{''" using arr by simp_all
        from "2.IH"(2) [OF Cons ns arr c' False rest] l show ?thesis by simp
      qed
    next
      case other
      define tail where "tail =
        match_literal ''NaN'' (PFloat ''NaN'') s
          (match_literal ''Infinity'' (PFloat ''Infinity'') s
          (match_literal ''-Infinity'' (PFloat ''-Infinity'') s Invalid))"
      define num where "num =
        (case match_number s of Some (v, r') \<Rightarrow> Scanned v r' | None \<Rightarrow> tail)"
      have ne: "s \<noteq> []" using Cons by simp
      have chain: "match_literal ''null'' PNone s
                     (match_literal ''true'' (PBool True) s
                     (match_literal ''false'' (PBool False) s num)) = Scanned v r"
        using "2.prems" other unfolding Cons num_def tail_def by simp
      have t: "length r < length s" if "tail = Scanned v r"
        using that unfolding tail_def
        by (elim match_literal_shorter) (use ne in simp_all)
      have n: "length r < length s" if "num = Scanned v r"
      proof (cases "match_number s")
        case None
        with that t show ?thesis by (simp add: num_def)
      next
        case (Some p)
        with that show ?thesis
          by (cases p) (auto simp: num_def dest: match_number_shorter)
      qed
      from chain show ?thesis
        by (elim match_literal_shorter) (use ne n in simp_all)
    qed
  qed
next
  case (3 s acc)
  then show ?case by simp
next
  case (4 n s acc)
  from "4.prems" obtain v0 r0 where v0: "scan_once n s = Scanned v0 r0"
    by (auto split: scan.splits)
  from "4.IH"(1) [OF v0] have l0: "length r0 < length s" .
  from "4.prems" v0 obtain c r' where c: "skip_ws r0 = c # r'"
    by (auto split: list.splits)
  from skip_ws_Cons [OF c] l0 have l1: "length r' < length s" by simp
  show ?case
  proof (cases "c = CHR '']''")
    case True
    with "4.prems" v0 c l1 show ?thesis by simp
  next
    case False
    with "4.prems" v0 c have comma: "c = CHR '',''"
      and rest: "JSONArray n (skip_ws r') (acc @ [v0]) = Scanned v r"
      by (auto split: if_splits)
    from "4.IH"(2) [OF v0 c False comma rest] skip_ws_le [of r'] l1
    show ?thesis by simp
  qed
next
  case (5 s kvs)
  then show ?case by simp
next
  case (6 n s kvs)
  from "6.prems" obtain key r0 where key: "scanstring s = Some (key, r0)"
    by (auto split: option.splits)
  from scanstring_shorter [OF key] have l0: "length r0 < length s" .
  from "6.prems" key obtain c r1 where c: "skip_ws r0 = c # r1"
    by (auto split: list.splits)
  from "6.prems" key c have colon: "c = CHR '':''" by (auto split: if_splits)
  from skip_ws_Cons [OF c] l0 have l1: "length r1 < length s" by simp
  from "6.prems" key c colon obtain v0 r2 where v0: "scan_once n (skip_ws r1) = Scanned v0 r2"
    by (auto split: scan.splits)
  have key': "Some (key, r0) = scanstring s" using key by simp
  have xa: "(key, r0) = (key, r0)" by simp
  from "6.IH"(1) [OF key xa c colon v0] skip_ws_le [of r1] l1
  have l2: "length r2 < length s" by simp
  from "6.prems" key c colon v0 obtain c2 r3 where c2: "skip_ws r2 = c2 # r3"
    by (auto split: list.splits)
  from skip_ws_Cons [OF c2] l2 have l3: "length r3 < length s" by simp
  show ?case
  proof (cases "c2 = CHR ''}''")
    case True
    with "6.prems" key c colon v0 c2 l3 show ?thesis by simp
  next
    case False
    with "6.prems" key c colon v0 c2 have comma: "c2 = CHR '',''"
      by (auto split: if_splits)
    from "6.prems" key c colon v0 c2 False comma obtain c3 r4 where c3: "skip_ws r3 = c3 # r4"
      by (auto split: list.splits)
    from "6.prems" key c colon v0 c2 False comma c3 have q: "c3 = CHR 0x22"
      and rest: "JSONObject n r4 (dict_set key v0 kvs) = Scanned v r"
      by (auto split: if_splits)
    from skip_ws_Cons [OF c3] l3 have l4: "length r4 < length s" by simp
    from "6.IH"(2) [OF key xa c colon v0 c2 False comma c3 q rest] l4
    show ?thesis by simp
  qed
qed


lemma match_literal_not_Exhausted:
  "other \<noteq> Exhausted \<Longrightarrow> match_literal lit v s other \<noteq> Exhausted"
  by (simp add: match_literal_def)

lemma fuel_suffices:
  "2 * length s + 1 \<le> n \<Longrightarrow> scan_once n s \<noteq> Exhausted"
  "2 * length s + 2 \<le> n \<Longrightarrow> JSONArray n s acc \<noteq> Exhausted"
  "2 * length s + 2 \<le> n \<Longrightarrow> JSONObject n s kvs \<noteq> Exhausted"
proof (induction n s and n s acc and n s kvs rule: scan_once_JSONArray_JSONObject.induct)
  case (1 s)
  then show ?case by simp
next
  case (2 n s)
  show ?case
  proof (cases s)
    case Nil
    then show ?thesis by simp
  next
    case (Cons c cs)
    consider (str) "c = CHR 0x22" | (obj) "c = CHR ''{''" | (arr) "c = CHR ''[''"
      | (other) "c \<noteq> CHR 0x22" "c \<noteq> CHR ''{''" "c \<noteq> CHR ''[''"
      by blast
    then show ?thesis
    proof cases
      case str
      with Cons show ?thesis by (simp split: option.splits)
    next
      case obj
      show ?thesis
      proof (cases "skip_ws cs")
        case Nil
        with Cons obj show ?thesis by simp
      next
        case c': (Cons c' r')
        show ?thesis
        proof (cases "c' \<noteq> CHR ''}'' \<and> c' = CHR 0x22")
          case False
          with Cons obj c' show ?thesis by auto
        next
          case True
          have ns: "c \<noteq> CHR 0x22" using obj by simp
          from skip_ws_Cons [OF c'] Cons "2.prems" have "2 * length r' + 2 \<le> n" by simp
          with "2.IH"(1) [OF Cons ns obj c'] True have "JSONObject n r' [] \<noteq> Exhausted"
            by simp
          with Cons obj c' True show ?thesis by simp
        qed
      qed
    next
      case arr
      show ?thesis
      proof (cases "skip_ws cs")
        case Nil
        with Cons arr show ?thesis by simp
      next
        case c': (Cons c' r')
        show ?thesis
        proof (cases "c' = CHR '']''")
          case True
          with Cons arr c' show ?thesis by simp
        next
          case False
          have ns: "c \<noteq> CHR 0x22" "c \<noteq> CHR ''{''" using arr by simp_all
          from skip_ws_le [of cs] c' Cons "2.prems" have "2 * length (c' # r') + 2 \<le> n"
            by simp
          with "2.IH"(2) [OF Cons ns arr c' False] have "JSONArray n (c' # r') [] \<noteq> Exhausted"
            by simp
          with Cons arr c' False show ?thesis by simp
        qed
      qed
    next
      case other
      with Cons show ?thesis
        by (auto intro!: match_literal_not_Exhausted split: option.splits)
    qed
  qed
next
  case (3 s acc)
  then show ?case by simp
next
  case (4 n s acc)
  from "4.prems" have n1: "2 * length s + 1 \<le> n" by simp
  show ?case
  proof (cases "scan_once n s")
    case (Scanned v0 r0)
    from scan_shorter(1) [OF Scanned] have l0: "length r0 < length s" .
    show ?thesis
    proof (cases "skip_ws r0")
      case Nil
      with Scanned show ?thesis by simp
    next
      case c: (Cons c r')
      from skip_ws_Cons [OF c] l0 have l1: "length r' < length s" by simp
      show ?thesis
      proof (cases "c \<noteq> CHR '']'' \<and> c = CHR '',''")
        case False
        with Scanned c show ?thesis by auto
      next
        case True
        from l1 skip_ws_le [of r'] "4.prems" have "2 * length (skip_ws r') + 2 \<le> n" by simp
        with "4.IH"(2) [OF Scanned c] True
        have "JSONArray n (skip_ws r') (acc @ [v0]) \<noteq> Exhausted" by simp
        with Scanned c True show ?thesis by simp
      qed
    qed
  next
    case Invalid
    then show ?thesis by simp
  next
    case Exhausted
    with "4.IH"(1) [OF n1] show ?thesis by simp
  qed
next
  case (5 s kvs)
  then show ?case by simp
next
  case (6 n s kvs)
  show ?case
  proof (cases "scanstring s")
    case None
    then show ?thesis by simp
  next
    case (Some p)
    obtain key r0 where p: "p = (key, r0)" by (cases p)
    have key: "scanstring s = Some (key, r0)" using Some p by simp
    have xa: "(key, r0) = (key, r0)" by simp
    from scanstring_shorter [OF key] have l0: "length r0 < length s" .
    show ?thesis
    proof (cases "skip_ws r0")
      case Nil
      with key show ?thesis by simp
    next
      case c: (Cons c r1)
      from skip_ws_Cons [OF c] l0 have l1: "length r1 < length s" by simp
      show ?thesis
      proof (cases "c = CHR '':''")
        case False
        with key c show ?thesis by simp
      next
        case colon: True
        from l1 skip_ws_le [of r1] "6.prems" have f1: "2 * length (skip_ws r1) + 1 \<le> n" by simp
        show ?thesis
        proof (cases "scan_once n (skip_ws r1)")
          case Invalid
          with key c colon show ?thesis by simp
        next
          case Exhausted
          with "6.IH"(1) [OF key xa c colon f1] show ?thesis by simp
        next
          case (Scanned v0 r2)
          from scan_shorter(1) [OF Scanned] skip_ws_le [of r1] l1
          have l2: "length r2 < length s" by simp
          show ?thesis
          proof (cases "skip_ws r2")
            case Nil
            with key c colon Scanned show ?thesis by simp
          next
            case c2: (Cons c2 r3)
            from skip_ws_Cons [OF c2] l2 have l3: "length r3 < length s" by simp
            show ?thesis
            proof (cases "c2 \<noteq> CHR ''}'' \<and> c2 = CHR '',''")
              case False
              with key c colon Scanned c2 show ?thesis by auto
            next
              case True
              then have nb: "c2 \<noteq> CHR ''}''" and comma: "c2 = CHR '',''" by simp_all
              show ?thesis
              proof (cases "skip_ws r3")
                case Nil
                with key c colon Scanned c2 True show ?thesis by simp
              next
                case c3: (Cons c3 r4)
                from skip_ws_Cons [OF c3] l3 have l4: "length r4 < length s" by simp
                show ?thesis
                proof (cases "c3 = CHR 0x22")
                  case False
                  with key c colon Scanned c2 True c3 show ?thesis by simp
                next
                  case q: True
                  from l4 "6.prems" have "2 * length r4 + 2 \<le> n" by simp
                  with "6.IH"(2) [OF key xa c colon Scanned c2 nb comma c3 q]
                  have "JSONObject n r4 (dict_set key v0 kvs) \<noteq> Exhausted" by simp
                  with key c colon Scanned c2 True c3 q show ?thesis by simp
                qed
              qed
            qed
          qed
        qed
      qed
    qed
  qed
qed

lemma json_loads_never_Exhausted:
  "scan_once (2 * length s + 1) (skip_ws s) \<noteq> Exhausted"
  using fuel_suffices(1) [of "skip_ws s" "2 * length s + 1"] skip_ws_le [of s] by simp

section \<open>The paths through the handler\<close>

lemma dumps_no_form_data:
  \<open>json_dumps [(''error'', ''No form data submitted.'')] = ''{"error": "No form data submitted."}''\<close>
  by (simp add: json_dumps_def encode_str_def escape_char_def)

lemma dumps_send_failed:
  \<open>json_dumps [(''error'', ''Failed to send email. Check Lambda logs.'')]
     = ''{"error": "Failed to send email. Check Lambda logs."}''\<close>
  by (simp add: json_dumps_def encode_str_def escape_char_def)

lemma dumps_internal:
  \<open>json_dumps [(''error'', ''Internal server error.'')] = ''{"error": "Internal server error."}''\<close>
  by (simp add: json_dumps_def encode_str_def escape_char_def)

lemma dumps_success:
  \<open>json_dumps [(''message'', ''Email sent successfully!''), (''message_id'', mid)]
     = ''{"message": "Email sent successfully!", "message_id": '' @ encode_str mid @ ''}''\<close>
  by (simp add: json_dumps_def encode_str_def escape_char_def)

lemma get_body_None:
  "dict_get event ''body'' PNone = PNone \<longleftrightarrow>
     map_of event ''body'' = None \<or> map_of event ''body'' = Some PNone"
  by (auto simp: dict_get_def split: option.splits)

lemma handler_no_body:
  assumes "map_of event ''body'' = None \<or> map_of event ''body'' = Some PNone"
  shows \<open>lambda_handler rt event w =
     (\<lparr>statusCode = 400, headers = None, body = ''{"error": "No form data submitted."}''\<rparr>,
      w\<lparr>stdout := stdout w @ [''No body found in the event.'']\<rparr>)\<close>
  using assms by (simp add: lambda_handler_def try_block_def get_body_None dumps_no_form_data print_def)


lemmas try_defs = try_block_def dict_subscript_def py_json_loads_def py_get_def py_replace_def
  get_body_None

lemma try_not_str:
  assumes "map_of event ''body'' = Some b" "b \<noteq> PNone" "\<forall>s. b \<noteq> PStr s"
  shows "try_block rt event w = (Raised TypeError, w)"
  using assms by (cases b) (simp_all add: try_defs)

lemma try_bad_json:
  assumes "map_of event ''body'' = Some (PStr s)" "loads rt s = None"
  shows "try_block rt event w = (Raised DecodeError, w)"
  using assms by (simp add: try_defs)

lemma try_not_dict:
  assumes "map_of event ''body'' = Some (PStr s)" "loads rt s = Some v" "\<forall>d. v \<noteq> PDict d"
  shows "try_block rt event w = (Raised AttributeError, w)"
  using assms by (cases v) (simp_all add: try_defs)

lemma try_bad_message:
  assumes "map_of event ''body'' = Some (PStr s)" "loads rt s = Some (PDict d)"
    and "\<forall>m. dict_get d ''message'' (PStr ''N/A'') \<noteq> PStr m"
  shows "try_block rt event w = (Raised AttributeError, w)"
  using assms by (cases "dict_get d ''message'' (PStr ''N/A'')") (simp_all add: try_defs)

lemma try_dispatch:
  assumes "map_of event ''body'' = Some (PStr s)" "loads rt s = Some (PDict d)"
    and "dict_get d ''message'' (PStr ''N/A'') = PStr m"
  shows "try_block rt event w =
     (case send_email rt (ses_params rt (dict_get d ''name'' (PStr ''N/A''))
                            (dict_get d ''email'' (PStr ''N/A''))
                            (dict_get d ''subject'' (PStr ''N/A'')) m
                            (replace m (linesep rt) ''<br>'')) of
        Sent r \<Rightarrow> Completed r
      | Rejected err \<Rightarrow> Raised (ClientError err)
      | Crashed \<Rightarrow> Raised SendError,
      w\<lparr>sent := sent w @ [ses_params rt (dict_get d ''name'' (PStr ''N/A''))
                            (dict_get d ''email'' (PStr ''N/A''))
                            (dict_get d ''subject'' (PStr ''N/A'')) m
                            (replace m (linesep rt) ''<br>'')]\<rparr>)"
  using assms by (simp add: try_defs format_value_def Let_def split: send_result.splits)

lemma try_block_cases:
  obtains
    (no_body) "map_of event ''body'' = None \<or> map_of event ''body'' = Some PNone"
  | (not_str) b where "map_of event ''body'' = Some b" "b \<noteq> PNone" "\<forall>s. b \<noteq> PStr s"
  | (bad_json) s where "map_of event ''body'' = Some (PStr s)" "loads rt s = None"
  | (not_dict) s v where "map_of event ''body'' = Some (PStr s)" "loads rt s = Some v"
      "\<forall>d. v \<noteq> PDict d"
  | (bad_message) s d where "map_of event ''body'' = Some (PStr s)" "loads rt s = Some (PDict d)"
      "\<forall>m. dict_get d ''message'' (PStr ''N/A'') \<noteq> PStr m"
  | (dispatch) s d m where "map_of event ''body'' = Some (PStr s)" "loads rt s = Some (PDict d)"
      "dict_get d ''message'' (PStr ''N/A'') = PStr m"
proof (cases "map_of event ''body''")
  case None
  then show ?thesis using no_body by simp
next
  case (Some b)
  show ?thesis
  proof (cases "\<exists>s. b = PStr s")
    case False
    then show ?thesis using Some no_body not_str by (cases "b = PNone") auto
  next
    case True
    then obtain s where s: "b = PStr s" by blast
    show ?thesis
    proof (cases "loads rt s")
      case None
      then show ?thesis using Some s bad_json by simp
    next
      case v: (Some v)
      show ?thesis
      proof (cases "\<exists>d. v = PDict d")
        case False
        then show ?thesis using Some s v not_dict by simp
      next
        case True
        then obtain d where d: "v = PDict d" by blast
        show ?thesis
          using Some s v d bad_message [of s d] dispatch [of s d]
          by (cases "\<exists>m. dict_get d ''message'' (PStr ''N/A'') = PStr m") auto
      qed
    qed
  qed
qed

lemma handler_raised:
  assumes "try_block rt event w = (Raised e, w')" "\<forall>err. e \<noteq> ClientError err"
  shows \<open>lambda_handler rt event w =
     (\<lparr>statusCode = 500,
       headers = Some [(''Access-Control-Allow-Origin'', ''*''), (''Content-Type'', ''application/json'')],
       body = ''{"error": "Internal server error."}''\<rparr>,
      w'\<lparr>stdout := stdout w' @ [''General Lambda Error: '' @ str_exn rt e]\<rparr>)\<close>
  using assms
  by (cases e) (simp_all add: lambda_handler_def dumps_internal cors_headers_def print_def)

lemma handler_dispatch:
  assumes "map_of event ''body'' = Some (PStr s)" "loads rt s = Some (PDict d)"
    and "dict_get d ''message'' (PStr ''N/A'') = PStr m"
    and "request = ses_params rt (dict_get d ''name'' (PStr ''N/A''))
                     (dict_get d ''email'' (PStr ''N/A''))
                     (dict_get d ''subject'' (PStr ''N/A'')) m
                     (replace m (linesep rt) ''<br>'')"
  shows \<open>lambda_handler rt event w =
     (case send_email rt request of
        Sent r \<Rightarrow>
          (\<lparr>statusCode = 200,
            headers = Some [(''Access-Control-Allow-Origin'', ''*''), (''Content-Type'', ''application/json'')],
            body = ''{"message": "Email sent successfully!", "message_id": ''
                   @ encode_str (MessageId r) @ ''}''\<rparr>,
           w\<lparr>sent := sent w @ [request]\<rparr>)
      | Rejected err \<Rightarrow>
          (\<lparr>statusCode = 500,
            headers = Some [(''Access-Control-Allow-Origin'', ''*''), (''Content-Type'', ''application/json'')],
            body = ''{"error": "Failed to send email. Check Lambda logs."}''\<rparr>,
           w\<lparr>sent := sent w @ [request],
             stdout := stdout w @ [''SES Send Email Error: '' @ ErrorMessage err]\<rparr>)
      | Crashed \<Rightarrow>
          (\<lparr>statusCode = 500,
            headers = Some [(''Access-Control-Allow-Origin'', ''*''), (''Content-Type'', ''application/json'')],
            body = ''{"error": "Internal server error."}''\<rparr>,
           w\<lparr>sent := sent w @ [request],
             stdout := stdout w @ [''General Lambda Error: '' @ str_exn rt SendError]\<rparr>))\<close>
  unfolding lambda_handler_def try_dispatch [OF assms(1-3)] assms(4)
  by (simp add: dumps_internal dumps_send_failed dumps_success cors_headers_def print_def
           split: send_result.splits)

lemma not_dispatched:
  assumes "try_block rt event w = (Raised e, w)" "\<forall>err. e \<noteq> ClientError err"
  shows "sent (snd (lambda_handler rt event w)) = sent w"
  by (simp add: handler_raised [OF assms])

lemma dispatched:
  assumes "sent (snd (lambda_handler rt event w)) \<noteq> sent w"
  obtains s d m where "map_of event ''body'' = Some (PStr s)" "loads rt s = Some (PDict d)"
    "dict_get d ''message'' (PStr ''N/A'') = PStr m"
proof (cases rule: try_block_cases [where event = event and rt = rt])
  case no_body
  with assms show ?thesis by (simp add: handler_no_body)
next
  case (not_str b)
  with assms not_dispatched [OF try_not_str] show ?thesis by blast
next
  case (bad_json s)
  with assms not_dispatched [OF try_bad_json] show ?thesis by blast
next
  case (not_dict s v)
  with assms not_dispatched [OF try_not_dict] show ?thesis by blast
next
  case (bad_message s d)
  with assms not_dispatched [OF try_bad_message] show ?thesis by blast
next
  case (dispatch s d m)
  with that show ?thesis by blast
qed

lemma sent_dispatch:
  assumes "map_of event ''body'' = Some (PStr s)" "loads rt s = Some (PDict d)"
    and "dict_get d ''message'' (PStr ''N/A'') = PStr m"
  shows "sent (snd (lambda_handler rt event w)) =
           sent w @ [ses_params rt (dict_get d ''name'' (PStr ''N/A''))
                       (dict_get d ''email'' (PStr ''N/A''))
                       (dict_get d ''subject'' (PStr ''N/A'')) m
                       (replace m (linesep rt) ''<br>'')]"
  by (simp add: handler_dispatch [OF assms refl] split: send_result.splits)

section \<open>The decoder on the bodies of the scenarios\<close>

lemma loads_alice:
  "json_loads alice_body =
     Some (PDict [(''name'', PStr ''Alice''), (''email'', PStr ''alice@example.com''),
                  (''subject'', PStr ''Hi''), (''message'', PStr ''Hello\<newline>World'')])"
  by code_simp

lemma loads_examples:
  \<open>json_loads '''' = None\<close>
  \<open>json_loads ''{"name": "Alice"'' = None\<close>
  \<open>json_loads ''42'' = Some (PInt 42)\<close>
  \<open>json_loads ''"hello"'' = Some (PStr ''hello'')\<close>
  \<open>json_loads ''true'' = Some (PBool True)\<close>
  \<open>json_loads ''null'' = Some PNone\<close>
  \<open>json_loads ''[1, 2]'' = Some (PList [PInt 1, PInt 2])\<close>
  \<open>json_loads ''{"message": 5}'' = Some (PDict [(''message'', PInt 5)])\<close>
  \<open>json_loads ''{"email": null, "message": "hi"}'' = Some (PDict [(''email'', PNone), (''message'', PStr ''hi'')])\<close>
  \<open>json_loads ''{"message": null}'' = Some (PDict [(''message'', PNone)])\<close>
  \<open>json_loads ''{"name": "Bob"}'' = Some (PDict [(''name'', PStr ''Bob'')])\<close>
  by code_simp+

lemma alice_sent:
  "sent (snd (lambda_handler (lambda_runtime reply) [(''body'', PStr alice_body)] idle)) =
     sent idle @ [ses_params (lambda_runtime reply) (PStr ''Alice'') (PStr ''alice@example.com'')
                    (PStr ''Hi'') ''Hello\<newline>World'' ''Hello<br>World'']"
proof -
  have l: "loads (lambda_runtime reply) alice_body =
             Some (PDict [(''name'', PStr ''Alice''), (''email'', PStr ''alice@example.com''),
                          (''subject'', PStr ''Hi''), (''message'', PStr ''Hello\<newline>World'')])"
    by (simp add: lambda_runtime_def loads_alice)
  have b: "map_of [(''body'', PStr alice_body)] ''body'' = Some (PStr alice_body)"
    by simp
  have f: "dict_get [(''name'', PStr ''Alice''), (''email'', PStr ''alice@example.com''),
                     (''subject'', PStr ''Hi''), (''message'', PStr ''Hello\<newline>World'')] ''name''
             (PStr ''N/A'') = PStr ''Alice''"
    "dict_get [(''name'', PStr ''Alice''), (''email'', PStr ''alice@example.com''),
                     (''subject'', PStr ''Hi''), (''message'', PStr ''Hello\<newline>World'')] ''email''
             (PStr ''N/A'') = PStr ''alice@example.com''"
    "dict_get [(''name'', PStr ''Alice''), (''email'', PStr ''alice@example.com''),
                     (''subject'', PStr ''Hi''), (''message'', PStr ''Hello\<newline>World'')] ''subject''
             (PStr ''N/A'') = PStr ''Hi''"
    "dict_get [(''name'', PStr ''Alice''), (''email'', PStr ''alice@example.com''),
                     (''subject'', PStr ''Hi''), (''message'', PStr ''Hello\<newline>World'')] ''message''
             (PStr ''N/A'') = PStr ''Hello\<newline>World''"
    by (simp_all add: dict_get_def)
  have r: "replace ''Hello\<newline>World'' (linesep (lambda_runtime reply)) ''<br>'' = ''Hello<br>World''"
    by (simp add: lambda_runtime_def replace_char)
  from sent_dispatch [OF b l f(4), of idle] show ?thesis
    by (simp only: f r)
qed

lemma alice_text_contains:
  \<open>sublist (''Message:\<newline>'' @ ''        Hello\<newline>World'')
     (''\<newline>''
          @ ''        New Contact Form Submission:\<newline>''
          @ ''        Name: Alice\<newline>''
          @ ''        Email: alice@example.com\<newline>''
          @ ''        Subject: Hi\<newline>''
          @ ''        Message:\<newline>''
          @ ''        Hello\<newline>''
          @ ''World\<newline>''
          @ ''        '')\<close>
  by code_simp

lemma loads_success_texts:
  \<open>json_loads ''{"message": "Email sent successfully!", "message_id": "abc-123"}'' =
     Some (PDict [(''message'', PStr ''Email sent successfully!''), (''message_id'', PStr ''abc-123'')])\<close>
  \<open>json_loads ''{"message":"Email sent successfully!","message_id":"abc-123"}'' =
     Some (PDict [(''message'', PStr ''Email sent successfully!''), (''message_id'', PStr ''abc-123'')])\<close>
  by code_simp+

lemma loads_markup:
  "json_loads markup_body =
     Some (PDict [(''name'', PStr ''<b>Al</b>''), (''email'', PStr ''a&b@example.com''),
                  (''subject'', PStr ''1 < 2''), (''message'', PStr ''one\<newline>two <script>'')])"
  by code_simp

section \<open>The claims\<close>

subsection \<open>Missing body\<close>

text \<open>
  C1. A request with no body (the event has no \<^verbatim>\<open>body\<close> key, or the key holds \<^verbatim>\<open>None\<close>) gets
  status 400 with the body \<^verbatim>\<open>{"error": "No form data submitted."}\<close> and no headers at all,
  and nothing is handed to the email provider.
\<close>

theorem no_body_is_bad_request:
  assumes "map_of event ''body'' = None \<or> map_of event ''body'' = Some PNone"
  shows \<open>fst (lambda_handler rt event w) =
            \<lparr>statusCode = 400, headers = None, body = ''{"error": "No form data submitted."}''\<rparr>
         \<and> sent (snd (lambda_handler rt event w)) = sent w\<close>
  by (simp add: handler_no_body [OF assms])

text \<open>A scenario that meets the hypotheses.\<close>

theorem no_body_is_bad_request_witness:
  \<open>fst (lambda_handler (lambda_runtime Crashed) [] idle) =
      \<lparr>statusCode = 400, headers = None, body = ''{"error": "No form data submitted."}''\<rparr>
   \<and> sent (snd (lambda_handler (lambda_runtime Crashed) [] idle)) = []
   \<and> fst (lambda_handler (lambda_runtime Crashed) [(''httpMethod'', PStr ''POST''), (''body'', PNone)] idle) =
      \<lparr>statusCode = 400, headers = None, body = ''{"error": "No form data submitted."}''\<rparr>
   \<and> sent (snd (lambda_handler (lambda_runtime Crashed) [(''httpMethod'', PStr ''POST''), (''body'', PNone)] idle)) = []\<close>
  using no_body_is_bad_request [of "[]" "lambda_runtime Crashed" idle]
    no_body_is_bad_request [of "[(''httpMethod'', PStr ''POST''), (''body'', PNone)]"
      "lambda_runtime Crashed" idle]
  by (simp add: idle_def)

subsection \<open>Success\<close>



subsection \<open>Provider failure\<close>

text \<open>
  C3. Whenever the provider rejects the request with a service-level error, the response
  has status 500, the two headers, and the body
  \<^verbatim>\<open>{"error": "Failed to send email. Check Lambda logs."}\<close>, whatever the provider's message
  is: the message goes to the log and the response does not depend on it.
\<close>

theorem provider_failure_response:
  assumes "sent (snd (lambda_handler rt event w)) = sent w @ [request]"
    and "send_email rt request = Rejected err"
  shows \<open>fst (lambda_handler rt event w) =
            \<lparr>statusCode = 500,
              headers = Some [(''Access-Control-Allow-Origin'', ''*''),
                              (''Content-Type'', ''application/json'')],
              body = ''{"error": "Failed to send email. Check Lambda logs."}''\<rparr>
         \<and> stdout (snd (lambda_handler rt event w)) =
             stdout w @ [''SES Send Email Error: '' @ ErrorMessage err]\<close>
proof -
  from assms(1) have "sent (snd (lambda_handler rt event w)) \<noteq> sent w" by simp
  then obtain s d m where sdm: "map_of event ''body'' = Some (PStr s)"
    "loads rt s = Some (PDict d)" "dict_get d ''message'' (PStr ''N/A'') = PStr m"
    by (rule dispatched)
  from sent_dispatch [OF sdm, of w] assms(1)
  have request: "request = ses_params rt (dict_get d ''name'' (PStr ''N/A''))
                     (dict_get d ''email'' (PStr ''N/A''))
                     (dict_get d ''subject'' (PStr ''N/A'')) m
                     (replace m (linesep rt) ''<br>'')"
    by simp
  show ?thesis
    by (simp add: handler_dispatch [OF sdm request] assms(2))
qed

text \<open>A scenario that meets the hypotheses.\<close>

theorem provider_failure_response_witness:
  \<open>fst (lambda_handler
          (lambda_runtime (Rejected \<lparr>ErrorCode = ''MessageRejected'',
                                      ErrorMessage = ''Email address is not verified.''\<rparr>))
          [(''body'', PStr alice_body)] idle) =
      \<lparr>statusCode = 500,
        headers = Some [(''Access-Control-Allow-Origin'', ''*''),
                        (''Content-Type'', ''application/json'')],
        body = ''{"error": "Failed to send email. Check Lambda logs."}''\<rparr>
   \<and> stdout (snd (lambda_handler
          (lambda_runtime (Rejected \<lparr>ErrorCode = ''MessageRejected'',
                                      ErrorMessage = ''Email address is not verified.''\<rparr>))
          [(''body'', PStr alice_body)] idle)) =
      [''SES Send Email Error: Email address is not verified.'']\<close>
proof -
  have r: "send_email (lambda_runtime (Rejected e)) request = Rejected e" for request e
    by (simp add: lambda_runtime_def)
  from provider_failure_response [OF alice_sent r] show ?thesis
    by (simp add: idle_def)
qed

subsection \<open>Every other failure\<close>



subsection \<open>Absent fields\<close>




subsection \<open>The request to the provider\<close>

text \<open>
  C6. An invocation that hands anything to the provider hands it exactly one request. Its
  source is the configured sender address, its destination the one-element list of the
  configured recipient address, its reply-to list holds the submitted \<^verbatim>\<open>email\<close> value as it
  is, its subject is \<^verbatim>\<open>New Contact: \<close> followed by the submitted subject, and the character
  set of the subject, of the HTML body and of the text body is UTF-8.
\<close>

theorem dispatch_parameters:
  assumes "sent (snd (lambda_handler rt event w)) \<noteq> sent w"
  shows \<open>\<exists>s d request.
            map_of event ''body'' = Some (PStr s) \<and> loads rt s = Some (PDict d)
          \<and> sent (snd (lambda_handler rt event w)) = sent w @ [request]
          \<and> Source request = SENDER_EMAIL \<and> SENDER_EMAIL = ''no-reply@yourdomain.com''
          \<and> Destination request = \<lparr>ToAddresses = [RECIPIENT_EMAIL]\<rparr>
          \<and> RECIPIENT_EMAIL = ''your-inbox@yourdomain.com''
          \<and> ReplyToAddresses request = [dict_get d ''email'' (PStr ''N/A'')]
          \<and> Data (Subject (Message request)) =
              ''New Contact: '' @ format_value rt (dict_get d ''subject'' (PStr ''N/A''))
          \<and> (\<forall>t. dict_get d ''subject'' (PStr ''N/A'') = PStr t \<longrightarrow>
                Data (Subject (Message request)) = ''New Contact: '' @ t)
          \<and> Charset (Subject (Message request)) = ''UTF-8''
          \<and> Charset (Html (Body (Message request))) = ''UTF-8''
          \<and> Charset (Text (Body (Message request))) = ''UTF-8''\<close>
proof -
  from assms obtain s d m where sdm: "map_of event ''body'' = Some (PStr s)"
    "loads rt s = Some (PDict d)" "dict_get d ''message'' (PStr ''N/A'') = PStr m"
    by (rule dispatched)
  define request where "request = ses_params rt (dict_get d ''name'' (PStr ''N/A''))
                     (dict_get d ''email'' (PStr ''N/A''))
                     (dict_get d ''subject'' (PStr ''N/A'')) m
                     (replace m (linesep rt) ''<br>'')"
  have sent: "sent (snd (lambda_handler rt event w)) = sent w @ [request]"
    unfolding request_def by (rule sent_dispatch [OF sdm])
  show ?thesis
    by (rule exI [where x = s], rule exI [where x = d], rule exI [where x = request])
       (simp add: sdm sent, simp add: request_def ses_params_def format_value_def
          SENDER_EMAIL_def RECIPIENT_EMAIL_def)
qed

text \<open>The request of the specification's example submission.\<close>

theorem dispatch_parameters_witness:
  \<open>map Source (sent (snd (lambda_handler (lambda_runtime (Sent \<lparr>MessageId = ''abc-123''\<rparr>))
          [(''body'', PStr alice_body)] idle))) = [''no-reply@yourdomain.com'']
   \<and> map Destination (sent (snd (lambda_handler (lambda_runtime (Sent \<lparr>MessageId = ''abc-123''\<rparr>))
          [(''body'', PStr alice_body)] idle))) = [\<lparr>ToAddresses = [''your-inbox@yourdomain.com'']\<rparr>]
   \<and> map ReplyToAddresses (sent (snd (lambda_handler (lambda_runtime (Sent \<lparr>MessageId = ''abc-123''\<rparr>))
          [(''body'', PStr alice_body)] idle))) = [[PStr ''alice@example.com'']]
   \<and> map (\<lambda>request. Subject (Message request)) (sent (snd (lambda_handler (lambda_runtime (Sent \<lparr>MessageId = ''abc-123''\<rparr>))
          [(''body'', PStr alice_body)] idle))) = [\<lparr>Charset = ''UTF-8'', Data = ''New Contact: Hi''\<rparr>]
   \<and> map (\<lambda>request. Charset (Html (Body (Message request)))) (sent (snd (lambda_handler (lambda_runtime (Sent \<lparr>MessageId = ''abc-123''\<rparr>))
          [(''body'', PStr alice_body)] idle))) = [''UTF-8'']
   \<and> map (\<lambda>request. Charset (Text (Body (Message request)))) (sent (snd (lambda_handler (lambda_runtime (Sent \<lparr>MessageId = ''abc-123''\<rparr>))
          [(''body'', PStr alice_body)] idle))) = [''UTF-8'']\<close>
proof -
  let ?rt = "lambda_runtime (Sent \<lparr>MessageId = ''abc-123''\<rparr>)"
  let ?event = "[(''body'', PStr alice_body)]"
  have "sent (snd (lambda_handler ?rt ?event idle)) \<noteq> sent idle"
    by (simp add: alice_sent)
  from dispatch_parameters [OF this]
  obtain s d request where b: "map_of ?event ''body'' = Some (PStr s)"
    and l: "loads ?rt s = Some (PDict d)"
    and sent: "sent (snd (lambda_handler ?rt ?event idle)) = sent idle @ [request]"
    and source: "Source request = SENDER_EMAIL" "SENDER_EMAIL = ''no-reply@yourdomain.com''"
    and destination: "Destination request = \<lparr>ToAddresses = [RECIPIENT_EMAIL]\<rparr>"
      "RECIPIENT_EMAIL = ''your-inbox@yourdomain.com''"
    and reply: "ReplyToAddresses request = [dict_get d ''email'' (PStr ''N/A'')]"
    and subject: "Data (Subject (Message request)) =
              ''New Contact: '' @ format_value ?rt (dict_get d ''subject'' (PStr ''N/A''))"
    and charsets: "Charset (Subject (Message request)) = ''UTF-8''"
      "Charset (Html (Body (Message request))) = ''UTF-8''"
      "Charset (Text (Body (Message request))) = ''UTF-8''"
    by blast
  from b have s: "s = alice_body" by simp
  from l have d: "d = [(''name'', PStr ''Alice''), (''email'', PStr ''alice@example.com''),
                       (''subject'', PStr ''Hi''), (''message'', PStr ''Hello\<newline>World'')]"
    unfolding s by (simp add: lambda_runtime_def loads_alice)
  have subject': "Subject (Message request) = \<lparr>Charset = ''UTF-8'', Data = ''New Contact: Hi''\<rparr>"
    using subject charsets(1) unfolding d
    by (cases "Subject (Message request)") (simp add: dict_get_def format_value_def)
  show ?thesis
    unfolding sent
    by (simp add: idle_def source destination reply d dict_get_def subject' charsets)
qed

subsection \<open>The example submission\<close>

text \<open>
  C7, as the specification states it, has the rendered plain-text body contain the
  characters \<^verbatim>\<open>Message:\<close>, a line feed, \<^verbatim>\<open>Hello\<close>, a line feed, \<^verbatim>\<open>World\<close> in a row. The body of
  the text part is an f-string written inside the indented \<^verbatim>\<open>try\<close> block, so every line of
  the template starts with eight spaces, also the line that holds the message: between
  \<^verbatim>\<open>Message:\<close> with its line feed and \<^verbatim>\<open>Hello\<close> stand eight spaces. The one request of the
  scenario has the text below, and the sequence of the claim does not occur in it (nor
  does it with a backslash and an \<^verbatim>\<open>n\<close> in place of each line feed).
\<close>

theorem alice_scenario_counterexample:
  \<open>map (\<lambda>request. Data (Text (Body (Message request))))
      (sent (snd (lambda_handler (lambda_runtime (Sent \<lparr>MessageId = ''abc-123''\<rparr>))
         [(''body'', PStr alice_body)] idle))) =
     [''\<newline>''
          @ ''        New Contact Form Submission:\<newline>''
          @ ''        Name: Alice\<newline>''
          @ ''        Email: alice@example.com\<newline>''
          @ ''        Subject: Hi\<newline>''
          @ ''        Message:\<newline>''
          @ ''        Hello\<newline>''
          @ ''World\<newline>''
          @ ''        '']
   \<and> map (\<lambda>request. sublist ''Message:\<newline>Hello\<newline>World'' (Data (Text (Body (Message request)))))
      (sent (snd (lambda_handler (lambda_runtime (Sent \<lparr>MessageId = ''abc-123''\<rparr>))
         [(''body'', PStr alice_body)] idle))) = [False]
   \<and> map (\<lambda>request. sublist (''Message:'' @ [CHR 0x5C] @ ''nHello'' @ [CHR 0x5C] @ ''nWorld'')
                       (Data (Text (Body (Message request)))))
      (sent (snd (lambda_handler (lambda_runtime (Sent \<lparr>MessageId = ''abc-123''\<rparr>))
         [(''body'', PStr alice_body)] idle))) = [False]\<close>
  by code_simp

text \<open>
  C7, amended. For the body
  \<^verbatim>\<open>{"name":"Alice","email":"alice@example.com","subject":"Hi","message":"Hello\nWorld"}\<close>
  (the constant \<open>alice_body\<close>) and a provider that returns the identifier \<^verbatim>\<open>abc-123\<close>: the
  status is 200; the body is the JSON object
  \<^verbatim>\<open>{"message":"Email sent successfully!","message_id":"abc-123"}\<close>, written with the
  separators of \<^verbatim>\<open>json.dumps\<close>; the rendered plain-text body contains \<^verbatim>\<open>Message:\<close>, a line feed,
  the eight spaces of the template's indentation and then \<^verbatim>\<open>Hello\<close>, a line feed, \<^verbatim>\<open>World\<close>;
  and the subject sent to the provider is \<^verbatim>\<open>New Contact: Hi\<close>.
\<close>

theorem alice_scenario:
  assumes "map_of event ''body'' = Some (PStr alice_body)"
    and "loads rt alice_body = json_loads alice_body"
    and "\<forall>request. send_email rt request = Sent \<lparr>MessageId = ''abc-123''\<rparr>"
  shows \<open>fst (lambda_handler rt event w) =
      \<lparr>statusCode = 200,
        headers = Some [(''Access-Control-Allow-Origin'', ''*''),
                        (''Content-Type'', ''application/json'')],
        body = ''{"message": "Email sent successfully!", "message_id": "abc-123"}''\<rparr>
    \<and> json_loads (body (fst (lambda_handler rt event w))) =
        Some (PDict [(''message'', PStr ''Email sent successfully!''),
                     (''message_id'', PStr ''abc-123'')])
    \<and> json_loads ''{"message":"Email sent successfully!","message_id":"abc-123"}'' =
        Some (PDict [(''message'', PStr ''Email sent successfully!''),
                     (''message_id'', PStr ''abc-123'')])
    \<and> (\<exists>request.
          sent (snd (lambda_handler rt event w)) = sent w @ [request]
        \<and> Data (Text (Body (Message request))) =
          ''\<newline>''
          @ ''        New Contact Form Submission:\<newline>''
          @ ''        Name: Alice\<newline>''
          @ ''        Email: alice@example.com\<newline>''
          @ ''        Subject: Hi\<newline>''
          @ ''        Message:\<newline>''
          @ ''        Hello\<newline>''
          @ ''World\<newline>''
          @ ''        ''
        \<and> sublist (''Message:\<newline>'' @ ''        Hello\<newline>World'')
             (Data (Text (Body (Message request))))
        \<and> Data (Subject (Message request)) = ''New Contact: Hi'')\<close>
proof -
  have l: "loads rt alice_body = Some (PDict [(''name'', PStr ''Alice''), (''email'', PStr ''alice@example.com''),
                  (''subject'', PStr ''Hi''), (''message'', PStr ''Hello\<newline>World'')])"
    by (simp add: assms(2) loads_alice)
  have m: "dict_get [(''name'', PStr ''Alice''), (''email'', PStr ''alice@example.com''),
                  (''subject'', PStr ''Hi''), (''message'', PStr ''Hello\<newline>World'')] ''message'' (PStr ''N/A'') = PStr ''Hello\<newline>World''"
    by (simp add: dict_get_def)
  define request where "request =
    ses_params rt
      (dict_get [(''name'', PStr ''Alice''), (''email'', PStr ''alice@example.com''),
                  (''subject'', PStr ''Hi''), (''message'', PStr ''Hello\<newline>World'')] ''name'' (PStr ''N/A''))
      (dict_get [(''name'', PStr ''Alice''), (''email'', PStr ''alice@example.com''),
                  (''subject'', PStr ''Hi''), (''message'', PStr ''Hello\<newline>World'')] ''email'' (PStr ''N/A''))
      (dict_get [(''name'', PStr ''Alice''), (''email'', PStr ''alice@example.com''),
                  (''subject'', PStr ''Hi''), (''message'', PStr ''Hello\<newline>World'')] ''subject'' (PStr ''N/A''))
      ''Hello\<newline>World'' (replace ''Hello\<newline>World'' (linesep rt) ''<br>'')"
  have response: \<open>fst (lambda_handler rt event w) =
      \<lparr>statusCode = 200,
        headers = Some [(''Access-Control-Allow-Origin'', ''*''),
                        (''Content-Type'', ''application/json'')],
        body = ''{"message": "Email sent successfully!", "message_id": "abc-123"}''\<rparr>\<close>
    by (simp add: handler_dispatch [OF assms(1) l m request_def] assms(3)
          encode_str_def escape_char_def)
  have decoded: \<open>json_loads (body (fst (lambda_handler rt event w))) =
        Some (PDict [(''message'', PStr ''Email sent successfully!''),
                     (''message_id'', PStr ''abc-123'')])\<close>
    unfolding response by (simp only: response.select_convs loads_success_texts)
  note compact = loads_success_texts(2)
  have sent: "sent (snd (lambda_handler rt event w)) = sent w @ [request]"
    unfolding request_def by (rule sent_dispatch [OF assms(1) l m])
  have rendered: \<open>Data (Text (Body (Message request))) =
          ''\<newline>''
          @ ''        New Contact Form Submission:\<newline>''
          @ ''        Name: Alice\<newline>''
          @ ''        Email: alice@example.com\<newline>''
          @ ''        Subject: Hi\<newline>''
          @ ''        Message:\<newline>''
          @ ''        Hello\<newline>''
          @ ''World\<newline>''
          @ ''        ''\<close>
    by (simp add: request_def ses_params_def TEXT_BODY_def format_value_def dict_get_def)
  have contains: \<open>sublist (''Message:\<newline>'' @ ''        Hello\<newline>World'')
             (Data (Text (Body (Message request))))\<close>
    unfolding rendered by (rule alice_text_contains)
  have subject: "Data (Subject (Message request)) = ''New Contact: Hi''"
    by (simp add: request_def ses_params_def format_value_def dict_get_def)
  have \<open>\<exists>request.
          sent (snd (lambda_handler rt event w)) = sent w @ [request]
        \<and> Data (Text (Body (Message request))) =
          ''\<newline>''
          @ ''        New Contact Form Submission:\<newline>''
          @ ''        Name: Alice\<newline>''
          @ ''        Email: alice@example.com\<newline>''
          @ ''        Subject: Hi\<newline>''
          @ ''        Message:\<newline>''
          @ ''        Hello\<newline>''
          @ ''World\<newline>''
          @ ''        ''
        \<and> sublist (''Message:\<newline>'' @ ''        Hello\<newline>World'')
             (Data (Text (Body (Message request))))
        \<and> Data (Subject (Message request)) = ''New Contact: Hi''\<close>
    using sent rendered contains subject by (intro exI [where x = request] conjI)
  with response decoded compact show ?thesis by (intro conjI)
qed

text \<open>The scenario on Linux, with the decoder of the scenarios.\<close>

theorem alice_scenario_witness:
  \<open>fst (lambda_handler (lambda_runtime (Sent \<lparr>MessageId = ''abc-123''\<rparr>)) [(''body'', PStr alice_body)] idle) =
      \<lparr>statusCode = 200,
        headers = Some [(''Access-Control-Allow-Origin'', ''*''),
                        (''Content-Type'', ''application/json'')],
        body = ''{"message": "Email sent successfully!", "message_id": "abc-123"}''\<rparr>
   \<and> map (\<lambda>request. Data (Subject (Message request)))
      (sent (snd (lambda_handler (lambda_runtime (Sent \<lparr>MessageId = ''abc-123''\<rparr>))
         [(''body'', PStr alice_body)] idle))) = [''New Contact: Hi'']
   \<and> map (\<lambda>request. sublist (''Message:\<newline>'' @ ''        Hello\<newline>World'')
                       (Data (Text (Body (Message request)))))
      (sent (snd (lambda_handler (lambda_runtime (Sent \<lparr>MessageId = ''abc-123''\<rparr>))
         [(''body'', PStr alice_body)] idle))) = [True]\<close>
proof -
  let ?rt = "lambda_runtime (Sent \<lparr>MessageId = ''abc-123''\<rparr>)"
  let ?event = "[(''body'', PStr alice_body)]"
  have b: "map_of ?event ''body'' = Some (PStr alice_body)" by simp
  have l: "loads ?rt alice_body = json_loads alice_body" by (simp add: lambda_runtime_def)
  have p: "\<forall>request. send_email ?rt request = Sent \<lparr>MessageId = ''abc-123''\<rparr>"
    by (simp add: lambda_runtime_def)
  note scenario = alice_scenario [OF b l p, of idle]
  from scenario [THEN conjunct2, THEN conjunct2, THEN conjunct2]
  obtain request where sent: "sent (snd (lambda_handler ?rt ?event idle)) = sent idle @ [request]"
    and contains: \<open>sublist (''Message:\<newline>'' @ ''        Hello\<newline>World'')
             (Data (Text (Body (Message request))))\<close>
    and subject: "Data (Subject (Message request)) = ''New Contact: Hi''"
    by blast
  have requests: \<open>map (\<lambda>request. Data (Subject (Message request)))
      (sent (snd (lambda_handler ?rt ?event idle))) = [''New Contact: Hi'']
   \<and> map (\<lambda>request. sublist (''Message:\<newline>'' @ ''        Hello\<newline>World'')
                       (Data (Text (Body (Message request)))))
      (sent (snd (lambda_handler ?rt ?event idle))) = [True]\<close>
    unfolding sent using contains subject by (simp add: idle_def)
  from scenario [THEN conjunct1] requests show ?thesis by (rule conjI)
qed

subsection \<open>The two rendered bodies\<close>

text \<open>
  C8. The request an invocation hands to the provider carries two bodies rendered from
  the four submitted values. The HTML body is the fixed template with the name and the
  email as the two items of a list, the subject in a paragraph labelled \<^verbatim>\<open>Subject:\<close>, and
  the message with every occurrence of the platform's line separator replaced by \<^verbatim>\<open><br>\<close>:
  a message without the separator stays as it is, and the leftmost occurrence becomes
  \<^verbatim>\<open><br>\<close>, followed by the replacement of what comes after it (for a separator of one
  character, each such character becomes \<^verbatim>\<open><br>\<close>). The plain-text body is the fixed
  template with the four values. A value that is a string is put in as it is, in both
  bodies: nothing escapes it.
\<close>

theorem rendered_bodies:
  assumes "sent (snd (lambda_handler rt event w)) = sent w @ [request]"
  shows \<open>\<exists>s d m.
            map_of event ''body'' = Some (PStr s) \<and> loads rt s = Some (PDict d)
          \<and> dict_get d ''message'' (PStr ''N/A'') = PStr m
          \<and> Data (Html (Body (Message request))) =
              ''\<newline>''
              @ ''        <html>\<newline>''
              @ ''        <head></head>\<newline>''
              @ ''        <body>\<newline>''
              @ ''            <p>You have received a new contact form submission:</p>\<newline>''
              @ ''            <ul>\<newline>''
              @ ''                <li><strong>Name:</strong> ''
              @ format_value rt (dict_get d ''name'' (PStr ''N/A''))
              @ ''</li>\<newline>''
              @ ''                <li><strong>Email:</strong> ''
              @ format_value rt (dict_get d ''email'' (PStr ''N/A''))
              @ ''</li>\<newline>''
              @ ''            </ul>\<newline>''
              @ ''            <p><strong>Subject:</strong> ''
              @ format_value rt (dict_get d ''subject'' (PStr ''N/A''))
              @ ''</p>\<newline>''
              @ ''            <h3>Message:</h3>\<newline>''
              @ ''            <p>''
              @ replace m (linesep rt) ''<br>''
              @ ''</p>\<newline>''
              @ ''        </body>\<newline>''
              @ ''        </html>\<newline>''
              @ ''        ''
          \<and> Data (Text (Body (Message request))) =
              ''\<newline>''
              @ ''        New Contact Form Submission:\<newline>''
              @ ''        Name: ''
              @ format_value rt (dict_get d ''name'' (PStr ''N/A''))
              @ ''\<newline>''
              @ ''        Email: ''
              @ format_value rt (dict_get d ''email'' (PStr ''N/A''))
              @ ''\<newline>''
              @ ''        Subject: ''
              @ format_value rt (dict_get d ''subject'' (PStr ''N/A''))
              @ ''\<newline>''
              @ ''        Message:\<newline>''
              @ ''        ''
              @ m
              @ ''\<newline>''
              @ ''        ''
          \<and> (\<forall>t. format_value rt (PStr t) = t)
          \<and> (\<not> sublist (linesep rt) m \<longrightarrow> replace m (linesep rt) ''<br>'' = m)
          \<and> (\<forall>a b. \<not> sublist (linesep rt) (a @ butlast (linesep rt)) \<longrightarrow>
                replace (a @ linesep rt @ b) (linesep rt) ''<br>'' =
                a @ ''<br>'' @ replace b (linesep rt) ''<br>'')
          \<and> (\<forall>c. linesep rt = [c] \<longrightarrow>
                replace m (linesep rt) ''<br>'' =
                concat (map (\<lambda>x. if x = c then ''<br>'' else [x]) m))\<close>
proof -
  from assms have "sent (snd (lambda_handler rt event w)) \<noteq> sent w" by simp
  then obtain s d m where sdm: "map_of event ''body'' = Some (PStr s)"
    "loads rt s = Some (PDict d)" "dict_get d ''message'' (PStr ''N/A'') = PStr m"
    by (rule dispatched)
  from sent_dispatch [OF sdm, of w] assms
  have request: "request = ses_params rt (dict_get d ''name'' (PStr ''N/A''))
                     (dict_get d ''email'' (PStr ''N/A''))
                     (dict_get d ''subject'' (PStr ''N/A'')) m
                     (replace m (linesep rt) ''<br>'')"
    by simp
  have html: \<open>Data (Html (Body (Message request))) =
              ''\<newline>''
              @ ''        <html>\<newline>''
              @ ''        <head></head>\<newline>''
              @ ''        <body>\<newline>''
              @ ''            <p>You have received a new contact form submission:</p>\<newline>''
              @ ''            <ul>\<newline>''
              @ ''                <li><strong>Name:</strong> ''
              @ format_value rt (dict_get d ''name'' (PStr ''N/A''))
              @ ''</li>\<newline>''
              @ ''                <li><strong>Email:</strong> ''
              @ format_value rt (dict_get d ''email'' (PStr ''N/A''))
              @ ''</li>\<newline>''
              @ ''            </ul>\<newline>''
              @ ''            <p><strong>Subject:</strong> ''
              @ format_value rt (dict_get d ''subject'' (PStr ''N/A''))
              @ ''</p>\<newline>''
              @ ''            <h3>Message:</h3>\<newline>''
              @ ''            <p>''
              @ replace m (linesep rt) ''<br>''
              @ ''</p>\<newline>''
              @ ''        </body>\<newline>''
              @ ''        </html>\<newline>''
              @ ''        ''\<close>
    by (simp add: request ses_params_def HTML_BODY_def)
  have plain: \<open>Data (Text (Body (Message request))) =
              ''\<newline>''
              @ ''        New Contact Form Submission:\<newline>''
              @ ''        Name: ''
              @ format_value rt (dict_get d ''name'' (PStr ''N/A''))
              @ ''\<newline>''
              @ ''        Email: ''
              @ format_value rt (dict_get d ''email'' (PStr ''N/A''))
              @ ''\<newline>''
              @ ''        Subject: ''
              @ format_value rt (dict_get d ''subject'' (PStr ''N/A''))
              @ ''\<newline>''
              @ ''        Message:\<newline>''
              @ ''        ''
              @ m
              @ ''\<newline>''
              @ ''        ''\<close>
    by (simp add: request ses_params_def TEXT_BODY_def)
  have verbatim: "\<forall>t. format_value rt (PStr t) = t"
    by (simp add: format_value_def)
  have absent: "\<not> sublist (linesep rt) m \<longrightarrow> replace m (linesep rt) ''<br>'' = m"
    by (simp add: replace_absent)
  have first: "\<forall>a b. \<not> sublist (linesep rt) (a @ butlast (linesep rt)) \<longrightarrow>
                replace (a @ linesep rt @ b) (linesep rt) ''<br>'' =
                a @ ''<br>'' @ replace b (linesep rt) ''<br>''"
    by (simp add: replace_first)
  have single: "\<forall>c. linesep rt = [c] \<longrightarrow>
                replace m (linesep rt) ''<br>'' =
                concat (map (\<lambda>x. if x = c then ''<br>'' else [x]) m)"
    by (simp add: replace_char)
  show ?thesis
    by (rule exI [where x = s], rule exI [where x = d], rule exI [where x = m], intro conjI)
       (fact sdm html plain verbatim absent first single)+
qed

text \<open>
  A submission full of markup, on Linux: the values reach both bodies character for
  character, and the line feed of the message is \<^verbatim>\<open><br>\<close> in the HTML body.
\<close>

theorem rendered_bodies_witness:
  \<open>map (\<lambda>request. Data (Html (Body (Message request))))
      (sent (snd (lambda_handler (lambda_runtime (Sent \<lparr>MessageId = ''abc-123''\<rparr>))
         [(''body'', PStr markup_body)] idle))) =
     [''\<newline>''
          @ ''        <html>\<newline>''
          @ ''        <head></head>\<newline>''
          @ ''        <body>\<newline>''
          @ ''            <p>You have received a new contact form submission:</p>\<newline>''
          @ ''            <ul>\<newline>''
          @ ''                <li><strong>Name:</strong> <b>Al</b></li>\<newline>''
          @ ''                <li><strong>Email:</strong> a&b@example.com</li>\<newline>''
          @ ''            </ul>\<newline>''
          @ ''            <p><strong>Subject:</strong> 1 < 2</p>\<newline>''
          @ ''            <h3>Message:</h3>\<newline>''
          @ ''            <p>one<br>two <script></p>\<newline>''
          @ ''        </body>\<newline>''
          @ ''        </html>\<newline>''
          @ ''        '']
   \<and> map (\<lambda>request. Data (Text (Body (Message request))))
      (sent (snd (lambda_handler (lambda_runtime (Sent \<lparr>MessageId = ''abc-123''\<rparr>))
         [(''body'', PStr markup_body)] idle))) =
     [''\<newline>''
          @ ''        New Contact Form Submission:\<newline>''
          @ ''        Name: <b>Al</b>\<newline>''
          @ ''        Email: a&b@example.com\<newline>''
          @ ''        Subject: 1 < 2\<newline>''
          @ ''        Message:\<newline>''
          @ ''        one\<newline>''
          @ ''two <script>\<newline>''
          @ ''        '']\<close>
proof -
  let ?rt = "lambda_runtime (Sent \<lparr>MessageId = ''abc-123''\<rparr>)"
  let ?event = "[(''body'', PStr markup_body)]"
  define request where "request = ses_params ?rt
        (dict_get [(''name'', PStr ''<b>Al</b>''), (''email'', PStr ''a&b@example.com''),
                  (''subject'', PStr ''1 < 2''), (''message'', PStr ''one\<newline>two <script>'')] ''name'' (PStr ''N/A''))
        (dict_get [(''name'', PStr ''<b>Al</b>''), (''email'', PStr ''a&b@example.com''),
                  (''subject'', PStr ''1 < 2''), (''message'', PStr ''one\<newline>two <script>'')] ''email'' (PStr ''N/A''))
        (dict_get [(''name'', PStr ''<b>Al</b>''), (''email'', PStr ''a&b@example.com''),
                  (''subject'', PStr ''1 < 2''), (''message'', PStr ''one\<newline>two <script>'')] ''subject'' (PStr ''N/A''))
        ''one\<newline>two <script>'' (replace ''one\<newline>two <script>'' (linesep ?rt) ''<br>'')"
  have b: "map_of ?event ''body'' = Some (PStr markup_body)" by simp
  have l: "loads ?rt markup_body = Some (PDict [(''name'', PStr ''<b>Al</b>''), (''email'', PStr ''a&b@example.com''),
                  (''subject'', PStr ''1 < 2''), (''message'', PStr ''one\<newline>two <script>'')])"
    by (simp add: lambda_runtime_def loads_markup)
  have m0: "dict_get [(''name'', PStr ''<b>Al</b>''), (''email'', PStr ''a&b@example.com''),
                  (''subject'', PStr ''1 < 2''), (''message'', PStr ''one\<newline>two <script>'')] ''message'' (PStr ''N/A'') = PStr ''one\<newline>two <script>''"
    by (simp add: dict_get_def)
  have sent: "sent (snd (lambda_handler ?rt ?event idle)) = sent idle @ [request]"
    unfolding request_def by (rule sent_dispatch [OF b l m0])
  from rendered_bodies [OF sent]
  obtain s d m where s: "map_of ?event ''body'' = Some (PStr s)"
    and d: "loads ?rt s = Some (PDict d)"
    and m: "dict_get d ''message'' (PStr ''N/A'') = PStr m"
    and html: \<open>Data (Html (Body (Message request))) =
              ''\<newline>''
              @ ''        <html>\<newline>''
              @ ''        <head></head>\<newline>''
              @ ''        <body>\<newline>''
              @ ''            <p>You have received a new contact form submission:</p>\<newline>''
              @ ''            <ul>\<newline>''
              @ ''                <li><strong>Name:</strong> ''
              @ format_value ?rt (dict_get d ''name'' (PStr ''N/A''))
              @ ''</li>\<newline>''
              @ ''                <li><strong>Email:</strong> ''
              @ format_value ?rt (dict_get d ''email'' (PStr ''N/A''))
              @ ''</li>\<newline>''
              @ ''            </ul>\<newline>''
              @ ''            <p><strong>Subject:</strong> ''
              @ format_value ?rt (dict_get d ''subject'' (PStr ''N/A''))
              @ ''</p>\<newline>''
              @ ''            <h3>Message:</h3>\<newline>''
              @ ''            <p>''
              @ replace m (linesep ?rt) ''<br>''
              @ ''</p>\<newline>''
              @ ''        </body>\<newline>''
              @ ''        </html>\<newline>''
              @ ''        ''\<close>
    and plain: \<open>Data (Text (Body (Message request))) =
              ''\<newline>''
              @ ''        New Contact Form Submission:\<newline>''
              @ ''        Name: ''
              @ format_value ?rt (dict_get d ''name'' (PStr ''N/A''))
              @ ''\<newline>''
              @ ''        Email: ''
              @ format_value ?rt (dict_get d ''email'' (PStr ''N/A''))
              @ ''\<newline>''
              @ ''        Subject: ''
              @ format_value ?rt (dict_get d ''subject'' (PStr ''N/A''))
              @ ''\<newline>''
              @ ''        Message:\<newline>''
              @ ''        ''
              @ m
              @ ''\<newline>''
              @ ''        ''\<close>
    and verbatim: "\<forall>t. format_value ?rt (PStr t) = t"
    and single: "\<forall>c. linesep ?rt = [c] \<longrightarrow>
                replace m (linesep ?rt) ''<br>'' =
                concat (map (\<lambda>x. if x = c then ''<br>'' else [x]) m)"
    by (elim exE conjE)
  from s have s': "s = markup_body" by simp
  from d have d': "d = [(''name'', PStr ''<b>Al</b>''), (''email'', PStr ''a&b@example.com''),
                  (''subject'', PStr ''1 < 2''), (''message'', PStr ''one\<newline>two <script>'')]"
    unfolding s' by (simp add: lambda_runtime_def loads_markup)
  from m have m': "m = ''one\<newline>two <script>''"
    unfolding d' by (simp add: dict_get_def)
  have sep: "linesep ?rt = ''\<newline>''" by (simp add: lambda_runtime_def)
  from single [rule_format, OF sep]
  have br: "replace m (linesep ?rt) ''<br>'' = ''one<br>two <script>''"
    unfolding m' by simp
  have fields: "format_value ?rt (dict_get d ''name'' (PStr ''N/A'')) = ''<b>Al</b>''"
    "format_value ?rt (dict_get d ''email'' (PStr ''N/A'')) = ''a&b@example.com''"
    "format_value ?rt (dict_get d ''subject'' (PStr ''N/A'')) = ''1 < 2''"
    unfolding d' by (simp_all add: dict_get_def verbatim)
  have html': \<open>Data (Html (Body (Message request))) =
     ''\<newline>''
          @ ''        <html>\<newline>''
          @ ''        <head></head>\<newline>''
          @ ''        <body>\<newline>''
          @ ''            <p>You have received a new contact form submission:</p>\<newline>''
          @ ''            <ul>\<newline>''
          @ ''                <li><strong>Name:</strong> <b>Al</b></li>\<newline>''
          @ ''                <li><strong>Email:</strong> a&b@example.com</li>\<newline>''
          @ ''            </ul>\<newline>''
          @ ''            <p><strong>Subject:</strong> 1 < 2</p>\<newline>''
          @ ''            <h3>Message:</h3>\<newline>''
          @ ''            <p>one<br>two <script></p>\<newline>''
          @ ''        </body>\<newline>''
          @ ''        </html>\<newline>''
          @ ''        ''\<close>
    unfolding html fields br by simp
  have plain': \<open>Data (Text (Body (Message request))) =
     ''\<newline>''
          @ ''        New Contact Form Submission:\<newline>''
          @ ''        Name: <b>Al</b>\<newline>''
          @ ''        Email: a&b@example.com\<newline>''
          @ ''        Subject: 1 < 2\<newline>''
          @ ''        Message:\<newline>''
          @ ''        one\<newline>''
          @ ''two <script>\<newline>''
          @ ''        ''\<close>
    unfolding plain fields m' by simp
  show ?thesis
    unfolding sent by (simp add: idle_def html' plain')
qed

subsection \<open>A body that is no JSON object\<close>

text \<open>
  C9. A body that is present (not \<^verbatim>\<open>None\<close>) and is not the text of a JSON object gets the
  status 500 with the body \<^verbatim>\<open>{"error": "Internal server error."}\<close>, and nothing is handed to
  the provider. That covers a body the decoder refuses (the empty string among them), a
  body that decodes to a number, a string, a boolean, \<^verbatim>\<open>null\<close> or an array, and a body that
  is no string at all. An empty body is a server error, not the 400 of the missing body.
\<close>

theorem body_that_is_no_json_object:
  assumes "map_of event ''body'' = Some b" and "b \<noteq> PNone"
    and "\<forall>s d. b = PStr s \<longrightarrow> loads rt s \<noteq> Some (PDict d)"
  shows \<open>fst (lambda_handler rt event w) =
            \<lparr>statusCode = 500,
              headers = Some [(''Access-Control-Allow-Origin'', ''*''),
                              (''Content-Type'', ''application/json'')],
              body = ''{"error": "Internal server error."}''\<rparr>
         \<and> sent (snd (lambda_handler rt event w)) = sent w\<close>
proof -
  have "\<exists>e. try_block rt event w = (Raised e, w) \<and> (\<forall>err. e \<noteq> ClientError err)"
  proof (cases "\<exists>s. b = PStr s")
    case False
    with assms(1,2) have "try_block rt event w = (Raised TypeError, w)"
      by (intro try_not_str) auto
    then show ?thesis by simp
  next
    case True
    then obtain s where s: "b = PStr s" by blast
    show ?thesis
    proof (cases "loads rt s")
      case None
      with assms(1) s have "try_block rt event w = (Raised DecodeError, w)"
        by (intro try_bad_json) auto
      then show ?thesis by simp
    next
      case (Some v)
      with assms(3) s have "\<forall>d. v \<noteq> PDict d" by auto
      with assms(1) s Some have "try_block rt event w = (Raised AttributeError, w)"
        by (intro try_not_dict [where s = s and v = v]) auto
      then show ?thesis by simp
    qed
  qed
  then obtain e where e: "try_block rt event w = (Raised e, w)" "\<forall>err. e \<noteq> ClientError err"
    by blast
  show ?thesis by (simp add: handler_raised [OF e])
qed

text \<open>
  The kinds of body the claim lists, with the decoder of the scenarios: the empty string,
  a text that breaks off, a number, a string, a boolean, \<^verbatim>\<open>null\<close> and an array.
\<close>

theorem body_that_is_no_json_object_witness:
  \<open>list_all
     (\<lambda>s. fst (lambda_handler (lambda_runtime (Sent \<lparr>MessageId = ''abc-123''\<rparr>))
                  [(''body'', PStr s)] idle) =
            \<lparr>statusCode = 500,
              headers = Some [(''Access-Control-Allow-Origin'', ''*''),
                              (''Content-Type'', ''application/json'')],
              body = ''{"error": "Internal server error."}''\<rparr>
         \<and> sent (snd (lambda_handler (lambda_runtime (Sent \<lparr>MessageId = ''abc-123''\<rparr>))
                  [(''body'', PStr s)] idle)) = [])
     ['''', ''{"name": "Alice"'', ''42'', ''"hello"'', ''true'', ''null'', ''[1, 2]'']\<close>
proof -
  have one: \<open>fst (lambda_handler (lambda_runtime (Sent \<lparr>MessageId = ''abc-123''\<rparr>))
                  [(''body'', PStr s)] idle) =
            \<lparr>statusCode = 500,
              headers = Some [(''Access-Control-Allow-Origin'', ''*''),
                              (''Content-Type'', ''application/json'')],
              body = ''{"error": "Internal server error."}''\<rparr>
         \<and> sent (snd (lambda_handler (lambda_runtime (Sent \<lparr>MessageId = ''abc-123''\<rparr>))
                  [(''body'', PStr s)] idle)) = []\<close>
    if "\<forall>d. json_loads s \<noteq> Some (PDict d)" for s
    using body_that_is_no_json_object
      [of "[(''body'', PStr s)]" "PStr s" "lambda_runtime (Sent \<lparr>MessageId = ''abc-123''\<rparr>)" idle]
      that
    by (simp add: lambda_runtime_def idle_def)
  show ?thesis
    by (simp add: one loads_examples)
qed

subsection \<open>A field that is present with \<^verbatim>\<open>null\<close>\<close>



end
